theory Spec2Isabelle
  imports Complex_Main "HOL-Library.Char_ord" "HOL-Library.List_Lexorder" "HOL-Library.AList"
    "HOL-Library.Log_Nat"
begin

section \<open>The wallet ledger of functions/src/index.ts\<close>

text \<open>
  The Cloud Functions of the repository keep one wallet document per user
  (\<^verbatim>\<open>wallets/{uid}\<close>), a transaction log below it
  (\<^verbatim>\<open>wallets/{uid}/transactions/{id}\<close>) and one staging document per PayFast
  payment (\<^verbatim>\<open>pending_payments/{paymentId}\<close>). This theory embeds the handlers that
  move money as functions on an explicit store.

  Conventions of the embedding.
  \<^item> A JavaScript string is a byte string (\<^typ>\<open>string\<close>); an object with string keys is
    an association list in the order \<^verbatim>\<open>Object.entries\<close> yields, with distinct keys.
  \<^item> A JavaScript number is \<open>NaN\<close>, one of the two infinities or a finite value, a
    rational (\<open>jsnum\<close>). The sum, the difference and the product of two finite values
    are rounded to binary64, to the nearest value and to the even one of two nearest
    (\<open>fl\<close>); a decimal literal of the source is the binary64 value nearest to it.
    Negative zero is not told from zero. A number field of a request is the number that
    \<^verbatim>\<open>Number\<close> makes of it.
  \<^item> The built-in functions of the platform that the handlers call (the MD5 digest,
    URI encoding and decoding, form parsing, \<^verbatim>\<open>trim\<close>, \<^verbatim>\<open>toUpperCase\<close>,
    \<^verbatim>\<open>Number\<close> of a string, \<^verbatim>\<open>localeCompare\<close>) are fields of a record
    \<open>platform\<close>; every handler takes the platform as an argument and every theorem that
    names no platform holds for each.
  \<^item> \<^verbatim>\<open>Timestamp.now()\<close> and the identifiers that \<^verbatim>\<open>db.collection('_ids').doc().id\<close>
    generates are arguments of the handler.
  \<^item> The callback of \<^verbatim>\<open>db.runTransaction\<close> reads the store and returns the list of
    the writes it has queued with \<^verbatim>\<open>t.set\<close> and \<^verbatim>\<open>t.update\<close>, or throws.
    Firestore applies the queued writes in their order, all of them or, when the callback
    throws or a write fails, none; transactions on the same documents are serialised.
  \<^item> A thrown \<^verbatim>\<open>HttpsError\<close> is the \<^term>\<open>Inl\<close> of a sum.

  Line numbers are those of \<^verbatim>\<open>src/unnamed/part_002\<close>, in which
  \<^verbatim>\<open>functions/src/index.ts\<close> begins at line 403. The properties carry the numbers
  C1 to C10 of the specification's claims.
\<close>

subsection \<open>JavaScript values\<close>

type_synonym 'v js_object = "(string \<times> 'v) list"

definition js_get :: "'v js_object \<Rightarrow> string \<Rightarrow> 'v option" where
  "js_get obj k = map_of obj k"

definition js_set :: "string \<Rightarrow> 'v \<Rightarrow> 'v js_object \<Rightarrow> 'v js_object" where
  "js_set k v obj = AList.update k v obj"

text \<open>\<^verbatim>\<open>x || d\<close> on an optional string: the empty string and a missing value are falsy.\<close>

definition str_or :: "string option \<Rightarrow> string \<Rightarrow> string" where
  "str_or x d = (case x of None \<Rightarrow> d | Some v \<Rightarrow> if v = [] then d else v)"

text \<open>\<^verbatim>\<open>x || null\<close> on an optional string.\<close>

definition str_or_null :: "string option \<Rightarrow> string option" where
  "str_or_null x = (case x of None \<Rightarrow> None | Some v \<Rightarrow> if v = [] then None else Some v)"

text \<open>\<^verbatim>\<open>xs.join(sep)\<close>.\<close>

fun js_join :: "string \<Rightarrow> string list \<Rightarrow> string" where
  "js_join sep [] = []"
| "js_join sep [x] = x"
| "js_join sep (x # y # ys) = x @ sep @ js_join sep (y # ys)"

text \<open>\<^verbatim>\<open>s.split(c)\<close> for a one-character separator.\<close>

fun js_split :: "char \<Rightarrow> string \<Rightarrow> string list" where
  "js_split c [] = [[]]"
| "js_split c (x # xs) =
     (if x = c then [] # js_split c xs
      else (case js_split c xs of [] \<Rightarrow> [[x]] | y # ys \<Rightarrow> (x # y) # ys))"

subsection \<open>JavaScript numbers\<close>

datatype jsnum = NaN | PInf | NInf | Num rat

text \<open>
  Rounding to binary64. For \<open>x > 0\<close>, \<open>ilog2 x\<close> is the exponent \<open>e\<close> with
  \<open>2 powi e \<le> x < 2 powi (e + 1)\<close>. A finite value with that exponent is a multiple
  of \<open>2 powi (e - 52)\<close>, where \<open>e\<close> is taken as -1022 when it is less (the subnormal
  values are the multiples of \<open>2 powi (- 1074)\<close>); \<open>rne\<close> rounds to the nearest
  integer, a tie to the even one; a result of magnitude \<open>2 powi 1024\<close> or more is an
  infinity.
\<close>

definition ilog2 :: "rat \<Rightarrow> int" where
  "ilog2 x = (if 1 \<le> x then bitlen \<lfloor>x\<rfloor> - 1 else - bitlen (\<lceil>1 / x\<rceil> - 1))"

definition rne :: "rat \<Rightarrow> int" where
  "rne y =
     (let f = \<lfloor>y\<rfloor>; r = y - of_int f
      in if r < 1 / 2 then f else if 1 / 2 < r then f + 1 else if even f then f else f + 1)"

definition fl :: "rat \<Rightarrow> jsnum" where
  "fl x =
     (if x = 0 then Num 0
      else
        (let q = 2 powi (max (ilog2 \<bar>x\<bar>) (- 1022) - 52);
             y = of_int (rne (x / q)) * q
         in if 2 powi 1024 \<le> y then PInf else if y \<le> - (2 powi 1024) then NInf else Num y))"

text \<open>\<^verbatim>\<open>a + b\<close>, \<^verbatim>\<open>-a\<close>, \<^verbatim>\<open>a - b\<close> and \<^verbatim>\<open>a * b\<close>.\<close>

fun js_add :: "jsnum \<Rightarrow> jsnum \<Rightarrow> jsnum" where
  "js_add (Num a) (Num b) = fl (a + b)"
| "js_add NaN b = NaN"
| "js_add a NaN = NaN"
| "js_add PInf NInf = NaN"
| "js_add NInf PInf = NaN"
| "js_add PInf b = PInf"
| "js_add a PInf = PInf"
| "js_add NInf b = NInf"
| "js_add a NInf = NInf"

fun js_neg :: "jsnum \<Rightarrow> jsnum" where
  "js_neg NaN = NaN"
| "js_neg PInf = NInf"
| "js_neg NInf = PInf"
| "js_neg (Num a) = Num (- a)"

definition js_sub :: "jsnum \<Rightarrow> jsnum \<Rightarrow> jsnum" where
  "js_sub a b = js_add a (js_neg b)"

fun js_sign :: "jsnum \<Rightarrow> int" where
  "js_sign NaN = 0"
| "js_sign PInf = 1"
| "js_sign NInf = - 1"
| "js_sign (Num a) = (if 0 < a then 1 else if a < 0 then - 1 else 0)"

fun js_mul :: "jsnum \<Rightarrow> jsnum \<Rightarrow> jsnum" where
  "js_mul (Num a) (Num b) = fl (a * b)"
| "js_mul NaN b = NaN"
| "js_mul a NaN = NaN"
| "js_mul a b =
     (if a = Num 0 \<or> b = Num 0 then NaN
      else if js_sign a = js_sign b then PInf else NInf)"

text \<open>\<^verbatim>\<open>a < b\<close> and \<^verbatim>\<open>a <= b\<close>: false when either side is \<open>NaN\<close>.\<close>

fun js_lt :: "jsnum \<Rightarrow> jsnum \<Rightarrow> bool" where
  "js_lt (Num a) (Num b) = (a < b)"
| "js_lt NaN b = False"
| "js_lt a NaN = False"
| "js_lt a NInf = False"
| "js_lt NInf b = True"
| "js_lt PInf b = False"
| "js_lt a PInf = True"

definition js_le :: "jsnum \<Rightarrow> jsnum \<Rightarrow> bool" where
  "js_le a b = (js_lt a b \<or> (a = b \<and> a \<noteq> NaN))"

text \<open>\<^verbatim>\<open>!x\<close> on a number, \<^verbatim>\<open>isNaN(x)\<close> and \<^verbatim>\<open>Number.isFinite(x)\<close>.\<close>

definition js_falsy :: "jsnum \<Rightarrow> bool" where
  "js_falsy x = (x = NaN \<or> x = Num 0)"

definition isNaN :: "jsnum \<Rightarrow> bool" where
  "isNaN x = (x = NaN)"

definition isFinite :: "jsnum \<Rightarrow> bool" where
  "isFinite x = (case x of Num a \<Rightarrow> True | _ \<Rightarrow> False)"

text \<open>\<^verbatim>\<open>Number(x || 0)\<close> on a stored number: a missing field, 0 and \<open>NaN\<close> give 0.\<close>

definition num_or_zero :: "jsnum option \<Rightarrow> jsnum" where
  "num_or_zero x = (case x of None \<Rightarrow> Num 0 | Some v \<Rightarrow> if js_falsy v then Num 0 else v)"

text \<open>
  \<^verbatim>\<open>Math.round\<close> rounds to the nearest integer, a half upwards; \<^verbatim>\<open>Math.max\<close> and
  \<^verbatim>\<open>Math.min\<close> of two numbers.
\<close>

fun math_round :: "jsnum \<Rightarrow> jsnum" where
  "math_round (Num x) = Num (of_int \<lfloor>x + 1 / 2\<rfloor>)"
| "math_round x = x"

definition math_max :: "jsnum \<Rightarrow> jsnum \<Rightarrow> jsnum" where
  "math_max a b = (if a = NaN \<or> b = NaN then NaN else if js_lt a b then b else a)"

definition math_min :: "jsnum \<Rightarrow> jsnum \<Rightarrow> jsnum" where
  "math_min a b = (if a = NaN \<or> b = NaN then NaN else if js_lt b a then b else a)"

subsection \<open>The platform and the environment\<close>

record platform =
  md5_hex :: "string \<Rightarrow> string"
  encodeURIComponent :: "string \<Rightarrow> string"
  decodeURIComponent :: "string \<Rightarrow> string option"
  urlSearchParams :: "string \<Rightarrow> (string \<times> string) list"
  string_trim :: "string \<Rightarrow> string"
  toUpperCase :: "string \<Rightarrow> string"
  toNumber :: "string \<Rightarrow> jsnum"
  toLowerCase :: "string \<Rightarrow> string"
  localeCompare :: "string \<Rightarrow> string \<Rightarrow> int"

text \<open>
  \<open>decodeURIComponent\<close> is \<^term>\<open>None\<close> where the built-in throws a
  \<^verbatim>\<open>URIError\<close>; \<open>toNumber\<close> is \<^verbatim>\<open>Number\<close> applied to a string.
\<close>

record env =
  APP_BASE_CURRENCY :: "string option"
  APP_PLATFORM_FEE_RATE :: "string option"
  PAYFAST_MERCHANT_ID :: "string option"
  PAYFAST_MERCHANT_KEY :: "string option"
  PAYFAST_PASSPHRASE :: "string option"
  PAYFAST_ENV :: "string option"

definition APP_DEFAULT_CCY :: string where
  "APP_DEFAULT_CCY = ''ZAR''"

definition getBaseCurrency :: "platform \<Rightarrow> env \<Rightarrow> string" where
  "getBaseCurrency p e = toUpperCase p (str_or (APP_BASE_CURRENCY e) APP_DEFAULT_CCY)"

subsection \<open>Errors and callers\<close>

datatype error_code =
  Invalid_argument | Failed_precondition | Not_found | Permission_denied
  | Unauthenticated | Internal

datatype https_error = HttpsError error_code string

type_synonym 'a result = "https_error + 'a"

definition uidOrThrow :: "string option \<Rightarrow> string result" where
  "uidOrThrow auth =
     (case auth of
        None \<Rightarrow> Inl (HttpsError Unauthenticated ''Not signed in.'')
      | Some uid \<Rightarrow>
          if uid = [] then Inl (HttpsError Unauthenticated ''Not signed in.'') else Inr uid)"

subsection \<open>Documents and the store\<close>

text \<open>
  The fields of the documents that the handlers read or write. A number field holds a
  number or is missing.
\<close>

record wallet =
  w_uid :: "string option"
  w_balance :: "jsnum option"
  w_currency :: "string option"
  w_updatedAt :: "nat option"
  w_createdAt :: "nat option"

record payfast_data =
  pfd_pf_payment_id :: "string option"
  pfd_payment_status :: "string option"
  pfd_payment_method :: "string option"

record tx_entry =
  tx_type :: string
  tx_amount :: jsnum
  tx_currency :: string
  tx_status :: string
  tx_createdAt :: nat
  tx_counterparty :: "string option"
  tx_note :: "string option"
  tx_provider :: "string option"
  tx_paymentMethod :: "string option"
  tx_payfastData :: "payfast_data option"
  tx_rideId :: "string option"
  tx_platformFee :: "jsnum option"
  tx_payoutToDriver :: "jsnum option"
  tx_reason :: "string option"
  tx_adminUid :: "string option"

record pending_payment =
  pp_uid :: string
  pp_amount :: "jsnum option"
  pp_currency :: "string option"
  pp_status :: string
  pp_provider :: string
  pp_createdAt :: nat
  pp_completedAt :: "nat option"
  pp_pfPaymentId :: "string option"
  pp_paymentMethod :: "string option"
  pp_payfastData_pf_payment_id :: "string option"

record ride =
  r_userId :: string
  r_status :: string
  r_payment_status :: "string option"
  r_payment_lastError :: "string option"
  r_driver_id :: "string option"
  r_estimatedFareZAR :: "jsnum option"
  r_updatedAt :: "nat option"

record driver_live =
  dl_occupied :: bool
  dl_updatedAt :: nat

record store =
  wallets :: "string \<rightharpoonup> wallet"
  transactions :: "string \<times> string \<rightharpoonup> tx_entry"
  pending_payments :: "string \<rightharpoonup> pending_payment"
  rides :: "string \<rightharpoonup> ride"
  drivers_live :: "string \<rightharpoonup> driver_live"

text \<open>
  \<^verbatim>\<open>snap.exists ? Number(snap.get('balance') || 0) : 0\<close>, the balance every handler
  reads from a wallet snapshot.
\<close>

definition snapBalance :: "wallet option \<Rightarrow> jsnum" where
  "snapBalance snap = (case snap of None \<Rightarrow> Num 0 | Some w \<Rightarrow> num_or_zero (w_balance w))"

definition walletBalance :: "store \<Rightarrow> string \<Rightarrow> jsnum" where
  "walletBalance s uid = snapBalance (wallets s uid)"

text \<open>\<^verbatim>\<open>snap.exists ? (snap.get('createdAt') || now) : now\<close>.\<close>

definition snapCreatedAt :: "wallet option \<Rightarrow> nat \<Rightarrow> nat" where
  "snapCreatedAt snap now =
     (case snap of
        None \<Rightarrow> now
      | Some w \<Rightarrow> (case w_createdAt w of None \<Rightarrow> now | Some c \<Rightarrow> c))"

text \<open>
  The data of
  \<^verbatim>\<open>t.set(ref, {uid, balance, currency, updatedAt, createdAt}, {merge: true})\<close>:
  the write names every field of the document.
\<close>

definition walletWrite :: "wallet option \<Rightarrow> string \<Rightarrow> jsnum \<Rightarrow> string \<Rightarrow> nat \<Rightarrow> wallet" where
  "walletWrite snap uid bal ccy now =
     \<lparr> w_uid = Some uid, w_balance = Some bal, w_currency = Some ccy,
       w_updatedAt = Some now, w_createdAt = Some (snapCreatedAt snap now) \<rparr>"

text \<open>A log entry with the fields every handler writes; the others are absent.\<close>

definition txEntry :: "string \<Rightarrow> jsnum \<Rightarrow> string \<Rightarrow> nat \<Rightarrow> tx_entry" where
  "txEntry ty amt ccy now =
     \<lparr> tx_type = ty, tx_amount = amt, tx_currency = ccy, tx_status = ''SUCCESS'',
       tx_createdAt = now, tx_counterparty = None, tx_note = None, tx_provider = None,
       tx_paymentMethod = None, tx_payfastData = None, tx_rideId = None,
       tx_platformFee = None, tx_payoutToDriver = None, tx_reason = None,
       tx_adminUid = None \<rparr>"

subsection \<open>Transactions\<close>

text \<open>
  The writes a transaction queues: \<^verbatim>\<open>t.set\<close> of a wallet, of a log entry and of a
  \<^verbatim>\<open>drivers_live\<close> document, and \<^verbatim>\<open>t.update\<close> of a pending payment (to
  COMPLETED at a time, on the webhook path with the gateway's payment id and the payment
  method) and of a ride (to completed and authorized at a time). \<^verbatim>\<open>t.update\<close> of a
  document that does not exist fails.
\<close>

datatype tx_write =
    Set_wallet string wallet
  | Set_transaction string string tx_entry
  | Update_pending string nat "(string option \<times> string) option"
  | Update_ride string nat
  | Set_driver_live string driver_live

fun apply_write :: "tx_write \<Rightarrow> store \<Rightarrow> store option" where
  "apply_write (Set_wallet uid w) s = Some (s\<lparr> wallets := (wallets s)(uid \<mapsto> w) \<rparr>)"
| "apply_write (Set_transaction uid txId entry) s =
     Some (s\<lparr> transactions := (transactions s)((uid, txId) \<mapsto> entry) \<rparr>)"
| "apply_write (Update_pending paymentId now extra) s =
     (case pending_payments s paymentId of
        None \<Rightarrow> None
      | Some pend \<Rightarrow>
          (let pend' = pend\<lparr> pp_status := ''COMPLETED'', pp_completedAt := Some now \<rparr>;
               pend'' = (case extra of
                           None \<Rightarrow> pend'
                         | Some (pfPaymentId, paymentMethod) \<Rightarrow>
                             pend'\<lparr> pp_pfPaymentId := pfPaymentId,
                                    pp_paymentMethod := Some paymentMethod \<rparr>)
           in Some (s\<lparr> pending_payments := (pending_payments s)(paymentId \<mapsto> pend'') \<rparr>)))"
| "apply_write (Update_ride rideId now) s =
     (case rides s rideId of
        None \<Rightarrow> None
      | Some rd \<Rightarrow>
          Some (s\<lparr> rides := (rides s)(rideId \<mapsto>
                  rd\<lparr> r_status := ''completed'', r_payment_status := Some ''authorized'',
                      r_payment_lastError := None, r_updatedAt := Some now \<rparr>) \<rparr>))"
| "apply_write (Set_driver_live driverId d) s =
     Some (s\<lparr> drivers_live := (drivers_live s)(driverId \<mapsto> d) \<rparr>)"

fun commit :: "tx_write list \<Rightarrow> store \<Rightarrow> store option" where
  "commit [] s = Some s"
| "commit (w # ws) s = (case apply_write w s of None \<Rightarrow> None | Some s' \<Rightarrow> commit ws s')"

text \<open>
  \<^verbatim>\<open>db.runTransaction(callback)\<close>: the error of the callback, the error of a write
  that fails, or the store with every queued write applied.
\<close>

definition runTransaction ::
  "(store \<Rightarrow> https_error + tx_write list) \<Rightarrow> store \<Rightarrow> https_error + store" where
  "runTransaction body s =
     (case body s of
        Inl err \<Rightarrow> Inl err
      | Inr ws \<Rightarrow>
          (case commit ws s of
             None \<Rightarrow> Inl (HttpsError Not_found ''No document to update'')
           | Some s' \<Rightarrow> Inr s'))"

subsection \<open>getWalletBalance\<close>

record balance_reply =
  br_balance :: jsnum
  br_currency :: string

definition getWalletBalance ::
  "platform \<Rightarrow> env \<Rightarrow> string option \<Rightarrow> store \<Rightarrow> balance_reply result \<times> store" where
  "getWalletBalance p e auth s =
     (case uidOrThrow auth of
        Inl err \<Rightarrow> (Inl err, s)
      | Inr uid \<Rightarrow>
          (case wallets s uid of
             None \<Rightarrow> (Inr \<lparr> br_balance = Num 0, br_currency = getBaseCurrency p e \<rparr>, s)
           | Some w \<Rightarrow>
               (Inr \<lparr> br_balance = num_or_zero (w_balance w),
                      br_currency = toUpperCase p (str_or (w_currency w) (getBaseCurrency p e)) \<rparr>,
                s)))"

subsection \<open>transferFunds\<close>

record transfer_payload =
  tp_toUid :: string
  tp_amount :: jsnum
  tp_note :: "string option"

text \<open>
  The callback of the transaction, lines 977 to 1024: the two reads, the check of the
  sender's balance and the four writes.
\<close>

definition transferFunds_tx ::
  "string \<Rightarrow> nat \<Rightarrow> string \<Rightarrow> string \<Rightarrow> jsnum \<Rightarrow> string option \<Rightarrow> string \<Rightarrow> string
   \<Rightarrow> store \<Rightarrow> https_error + tx_write list" where
  "transferFunds_tx base now fromUid toUid amt note debitId creditId s =
     (let fromSnap = wallets s fromUid;
          toSnap = wallets s toUid;
          fromBal = snapBalance fromSnap
      in if js_lt fromBal amt
         then Inl (HttpsError Failed_precondition ''Insufficient balance'')
         else
           (let toBal = snapBalance toSnap
            in Inr [Set_wallet fromUid (walletWrite fromSnap fromUid (js_sub fromBal amt) base now),
                    Set_wallet toUid (walletWrite toSnap toUid (js_add toBal amt) base now),
                    Set_transaction fromUid debitId
                      ((txEntry ''TRANSFER_OUT'' amt base now)
                         \<lparr> tx_counterparty := Some toUid, tx_note := str_or_null note \<rparr>),
                    Set_transaction toUid creditId
                      ((txEntry ''TRANSFER_IN'' amt base now)
                         \<lparr> tx_counterparty := Some fromUid, tx_note := str_or_null note \<rparr>)]))"

definition transferFunds ::
  "platform \<Rightarrow> env \<Rightarrow> nat \<Rightarrow> string \<Rightarrow> string \<Rightarrow> string option \<Rightarrow> transfer_payload \<Rightarrow> store
   \<Rightarrow> string result \<times> store" where
  "transferFunds p e now debitId creditId auth d s =
     (case uidOrThrow auth of
        Inl err \<Rightarrow> (Inl err, s)
      | Inr fromUid \<Rightarrow>
          if tp_toUid d = [] then (Inl (HttpsError Invalid_argument ''toUid required''), s)
          else if tp_toUid d = fromUid
            then (Inl (HttpsError Invalid_argument ''Cannot send to yourself''), s)
          else if js_falsy (tp_amount d) \<or> isNaN (tp_amount d) \<or> js_le (tp_amount d) (Num 0)
            then (Inl (HttpsError Invalid_argument ''amount must be > 0''), s)
          else
            (case runTransaction
                    (transferFunds_tx (getBaseCurrency p e) now fromUid (tp_toUid d) (tp_amount d)
                       (tp_note d) debitId creditId) s of
               Inl err \<Rightarrow> (Inl err, s)
             | Inr s' \<Rightarrow> (Inr ''SUCCESS'', s')))"

subsection \<open>adminAdjustBalance\<close>

text \<open>
  The caller's record at the authentication service: \<open>au_admin\<close> is whether the
  custom claims hold \<^verbatim>\<open>admin === true\<close>. \<^verbatim>\<open>getUser\<close> of an unknown caller throws;
  the callable wrapper reports what is not an \<^verbatim>\<open>HttpsError\<close> as \<open>internal\<close>.
\<close>

record auth_user =
  au_admin :: bool

record adjust_payload =
  ap_uid :: string
  ap_delta :: "jsnum option"
  ap_reason :: "string option"

definition adminAdjustBalance_tx ::
  "string \<Rightarrow> nat \<Rightarrow> string \<Rightarrow> string \<Rightarrow> jsnum \<Rightarrow> string option \<Rightarrow> string \<Rightarrow> store
   \<Rightarrow> https_error + tx_write list" where
  "adminAdjustBalance_tx base now caller uid delta reason txId s =
     (let wSnap = wallets s uid;
          bal = snapBalance wSnap
      in Inr [Set_wallet uid (walletWrite wSnap uid (js_add bal delta) base now),
              Set_transaction uid txId
                ((txEntry ''ADMIN_ADJUST'' delta base now)
                   \<lparr> tx_reason := str_or_null reason, tx_adminUid := Some caller \<rparr>)])"

definition adminAdjustBalance ::
  "platform \<Rightarrow> env \<Rightarrow> (string \<rightharpoonup> auth_user) \<Rightarrow> nat \<Rightarrow> string \<Rightarrow> string option
   \<Rightarrow> adjust_payload \<Rightarrow> store \<Rightarrow> string result \<times> store" where
  "adminAdjustBalance p e getUser now txId auth d s =
     (case uidOrThrow auth of
        Inl err \<Rightarrow> (Inl err, s)
      | Inr caller \<Rightarrow>
          (case getUser caller of
             None \<Rightarrow> (Inl (HttpsError Internal ''INTERNAL''), s)
           | Some token \<Rightarrow>
               if \<not> au_admin token then (Inl (HttpsError Permission_denied ''Admin only''), s)
               else if ap_uid d = [] then (Inl (HttpsError Invalid_argument ''uid required''), s)
               else
                 (case ap_delta d of
                    None \<Rightarrow> (Inl (HttpsError Invalid_argument ''delta must be a number''), s)
                  | Some delta \<Rightarrow>
                      if isNaN delta
                      then (Inl (HttpsError Invalid_argument ''delta must be a number''), s)
                      else
                        (case runTransaction
                                (adminAdjustBalance_tx (getBaseCurrency p e) now caller (ap_uid d)
                                   delta (ap_reason d) txId) s of
                           Inl err \<Rightarrow> (Inl err, s)
                         | Inr s' \<Rightarrow> (Inr ''SUCCESS'', s')))))"

subsection \<open>payDriverOnComplete\<close>

text \<open>
  \<^verbatim>\<open>Number(process.env.APP_PLATFORM_FEE_RATE || "0.20")\<close>, clamped to [0, 0.95]; 0.20
  when the value is not finite.
\<close>

definition feeRate :: "platform \<Rightarrow> env \<Rightarrow> jsnum" where
  "feeRate p e =
     (let feeRateEnv = toNumber p (str_or (APP_PLATFORM_FEE_RATE e) ''0.20'')
      in if isFinite feeRateEnv then math_max (Num 0) (math_min (fl (95 / 100)) feeRateEnv)
         else fl (20 / 100))"

text \<open>\<^verbatim>\<open>Math.round(amount * feeRate)\<close> and \<^verbatim>\<open>amount - platformFee\<close>.\<close>

definition platformFee :: "jsnum \<Rightarrow> jsnum \<Rightarrow> jsnum" where
  "platformFee amount rate = math_round (js_mul amount rate)"

definition payout :: "jsnum \<Rightarrow> jsnum \<Rightarrow> jsnum" where
  "payout amount rate = js_sub amount (platformFee amount rate)"

text \<open>
  The callback of the transaction, lines 1472 to 1579. A ride that is paid or completed
  queues at most the write that frees its driver.
\<close>

definition payDriverOnComplete_tx ::
  "string \<Rightarrow> jsnum \<Rightarrow> nat \<Rightarrow> string \<Rightarrow> string \<Rightarrow> string \<Rightarrow> string \<Rightarrow> store
   \<Rightarrow> https_error + tx_write list" where
  "payDriverOnComplete_tx base rate now riderUid rideId debitId creditId s =
     (case rides s rideId of
        None \<Rightarrow> Inl (HttpsError Not_found ''Ride not found.'')
      | Some rd \<Rightarrow>
          if r_payment_status rd = Some ''authorized'' \<or> r_status rd = ''completed''
          then
            (if str_or (r_driver_id rd) [] \<noteq> []
             then Inr [Set_driver_live (str_or (r_driver_id rd) [])
                         \<lparr> dl_occupied = False, dl_updatedAt = now \<rparr>]
             else Inr [])
          else if r_userId rd \<noteq> riderUid
          then Inl (HttpsError Permission_denied ''Not your ride.'')
          else if r_status rd \<noteq> ''on_trip''
          then Inl (HttpsError Failed_precondition
                      (''Ride must be on_trip to complete (current: '' @ r_status rd @ '').''))
          else
            (let driverId = str_or (r_driver_id rd) [] in
             if driverId = [] then Inl (HttpsError Failed_precondition ''No assigned driver.'')
             else
               (let amount = num_or_zero (r_estimatedFareZAR rd) in
                if \<not> isFinite amount \<or> js_le amount (Num 0)
                then Inl (HttpsError Failed_precondition ''Invalid fare amount.'')
                else
                  (let riderW = wallets s riderUid;
                       driverW = wallets s driverId;
                       riderBal = snapBalance riderW
                   in if js_lt riderBal amount
                      then Inl (HttpsError Failed_precondition ''Insufficient rider balance.'')
                      else
                        (let driverBal = snapBalance driverW;
                             fee = platformFee amount rate;
                             pay = payout amount rate
                         in Inr [Set_wallet riderUid
                                   (walletWrite riderW riderUid (js_sub riderBal amount) base now),
                                 Set_wallet driverId
                                   (walletWrite driverW driverId (js_add driverBal pay) base now),
                                 Set_transaction riderUid debitId
                                   ((txEntry ''RIDE_PAYMENT'' amount base now)
                                      \<lparr> tx_counterparty := Some driverId,
                                        tx_rideId := Some rideId, tx_platformFee := Some fee,
                                        tx_payoutToDriver := Some pay \<rparr>),
                                 Set_transaction driverId creditId
                                   ((txEntry ''RIDE_EARN'' pay base now)
                                      \<lparr> tx_counterparty := Some riderUid,
                                        tx_rideId := Some rideId, tx_platformFee := Some fee \<rparr>),
                                 Update_ride rideId now,
                                 Set_driver_live driverId
                                   \<lparr> dl_occupied = False, dl_updatedAt = now \<rparr>])))))"

definition payDriverOnComplete ::
  "platform \<Rightarrow> env \<Rightarrow> nat \<Rightarrow> string \<Rightarrow> string \<Rightarrow> string option \<Rightarrow> string \<Rightarrow> store
   \<Rightarrow> bool result \<times> store" where
  "payDriverOnComplete p e now debitId creditId auth rideId s =
     (case uidOrThrow auth of
        Inl err \<Rightarrow> (Inl err, s)
      | Inr riderUid \<Rightarrow>
          if rideId = [] then (Inl (HttpsError Invalid_argument ''rideId required''), s)
          else
            (case runTransaction
                    (payDriverOnComplete_tx (getBaseCurrency p e) (feeRate p e) now riderUid rideId
                       debitId creditId) s of
               Inl err \<Rightarrow> (Inl err, s)
             | Inr s' \<Rightarrow> (Inr True, s')))"

subsection \<open>The PayFast signature\<close>

text \<open>\<^verbatim>\<open>String(x)\<close> on an optional string.\<close>

definition js_str :: "string option \<Rightarrow> string" where
  "js_str x = (case x of None \<Rightarrow> ''undefined'' | Some v \<Rightarrow> v)"

text \<open>\<^verbatim>\<open>cleanPf = (v) => (v == null ? '' : String(v).trim())\<close>.\<close>

definition cleanPf :: "platform \<Rightarrow> string option \<Rightarrow> string" where
  "cleanPf p v = (case v of None \<Rightarrow> [] | Some x \<Rightarrow> string_trim p x)"

text \<open>\<^verbatim>\<open>s.replace(/%20/g, '+')\<close>.\<close>

fun replace_pct20 :: "string \<Rightarrow> string" where
  "replace_pct20 (a # b # c # cs) =
     (if a = CHR ''%'' \<and> b = CHR ''2'' \<and> c = CHR ''0'' then CHR ''+'' # replace_pct20 cs
      else a # replace_pct20 (b # c # cs))"
| "replace_pct20 cs = cs"

definition encodePf :: "platform \<Rightarrow> string \<Rightarrow> string" where
  "encodePf p v = replace_pct20 (encodeURIComponent p v)"

record PayFastSignatureOpts =
  includeEmpty :: "bool option"
  excludeKeys :: "string list option"

definition default_opts :: PayFastSignatureOpts where
  "default_opts = \<lparr> includeEmpty = None, excludeKeys = None \<rparr>"

text \<open>The body of the loop over \<^verbatim>\<open>Object.entries(data)\<close>.\<close>

definition pf_keep ::
  "platform \<Rightarrow> bool \<Rightarrow> string list \<Rightarrow> string \<times> string option \<Rightarrow> string js_object
   \<Rightarrow> string js_object" where
  "pf_keep p incl exclude kv filtered =
     (if fst kv \<in> set exclude then filtered
      else
        (case snd kv of
           None \<Rightarrow> filtered
         | Some v \<Rightarrow>
             (let cleaned = cleanPf p (Some v) in
              if \<not> incl \<and> cleaned = [] then filtered else js_set (fst kv) cleaned filtered)))"

definition pf_filtered ::
  "platform \<Rightarrow> (string option) js_object \<Rightarrow> PayFastSignatureOpts \<Rightarrow> string js_object" where
  "pf_filtered p data opts =
     fold (pf_keep p (includeEmpty opts = Some True)
             (case excludeKeys opts of None \<Rightarrow> [''signature''] | Some ks \<Rightarrow> ks))
       data []"

definition buildPayFastQueryString ::
  "platform \<Rightarrow> (string option) js_object \<Rightarrow> PayFastSignatureOpts \<Rightarrow> string \<times> string list" where
  "buildPayFastQueryString p data opts =
     (let filtered = pf_filtered p data opts;
          sortedKeys = sort (map fst filtered);
          queryString =
            js_join ''&''
              (map (\<lambda>key. key @ ''='' @ encodePf p (js_str (js_get filtered key))) sortedKeys)
      in (queryString, sortedKeys))"

definition generatePayFastSignature ::
  "platform \<Rightarrow> (string option) js_object \<Rightarrow> string \<Rightarrow> PayFastSignatureOpts \<Rightarrow> string" where
  "generatePayFastSignature p data passphrase opts =
     (let queryString = fst (buildPayFastQueryString p data opts);
          pf = cleanPf p (Some passphrase);
          fullString = (if pf \<noteq> [] then queryString @ ''&passphrase='' @ pf else queryString)
      in md5_hex p fullString)"

subsection \<open>payfastITN\<close>

datatype req_body = BodyString string | BodyObject "string js_object" | BodyNone

text \<open>
  The request as the handler reads it: the method, \<^verbatim>\<open>req.rawBody\<close> as a string when
  it is there, and \<^verbatim>\<open>req.body\<close>, a string (a buffer is its content), an object or
  nothing.
\<close>

record http_request =
  rq_method :: string
  rq_rawBody :: "string option"
  rq_body :: req_body

record http_response =
  rs_status :: nat
  rs_body :: string

definition respond :: "nat \<Rightarrow> string \<Rightarrow> http_response" where
  "respond code txt = \<lparr> rs_status = code, rs_body = txt \<rparr>"

text \<open>\<^verbatim>\<open>parsed.forEach((value, key) => { data[key] = decodeURIComponent(value); })\<close>;
  \<^term>\<open>None\<close> when a value makes \<^verbatim>\<open>decodeURIComponent\<close> throw.\<close>

definition itn_parse_form :: "platform \<Rightarrow> string \<Rightarrow> string js_object option" where
  "itn_parse_form p raw =
     fold (\<lambda>kv acc.
             (case acc of
                None \<Rightarrow> None
              | Some data \<Rightarrow>
                  (case decodeURIComponent p (snd kv) of
                     None \<Rightarrow> None
                   | Some v \<Rightarrow> Some (js_set (fst kv) v data))))
       (urlSearchParams p raw) (Some [])"

text \<open>\<^verbatim>\<open>xs.sort(cmp)\<close>: a stable sort by a comparison function.\<close>

fun insert_by :: "('a \<Rightarrow> 'a \<Rightarrow> int) \<Rightarrow> 'a \<Rightarrow> 'a list \<Rightarrow> 'a list" where
  "insert_by cmp x [] = [x]"
| "insert_by cmp x (y # ys) = (if cmp x y \<le> 0 then x # y # ys else y # insert_by cmp x ys)"

fun sort_by :: "('a \<Rightarrow> 'a \<Rightarrow> int) \<Rightarrow> 'a list \<Rightarrow> 'a list" where
  "sort_by cmp [] = []"
| "sort_by cmp (x # xs) = insert_by cmp x (sort_by cmp xs)"

text \<open>
  Lines 1167 to 1193: the raw body string and the parsed fields. \<^term>\<open>None\<close> when
  parsing throws.
\<close>

definition itn_decode :: "platform \<Rightarrow> http_request \<Rightarrow> (string \<times> string js_object) option" where
  "itn_decode p req =
     (let raw0 = (case rq_rawBody req of
                    Some b \<Rightarrow> b
                  | None \<Rightarrow> (case rq_body req of BodyString b \<Rightarrow> b | _ \<Rightarrow> []))
      in if raw0 \<noteq> []
         then (case itn_parse_form p raw0 of None \<Rightarrow> None | Some data \<Rightarrow> Some (raw0, data))
         else
           (case rq_body req of
              BodyObject entries \<Rightarrow>
                (let data = fold (\<lambda>kv. js_set (fst kv) (snd kv)) entries [];
                     raw = js_join ''&''
                             (map (\<lambda>kv. fst kv @ ''='' @ encodeURIComponent p (snd kv))
                                (sort_by (\<lambda>a b. localeCompare p (fst a) (fst b))
                                   (filter (\<lambda>kv. fst kv \<noteq> ''signature'') data)))
                 in Some (raw, data))
            | _ \<Rightarrow> Some ([], [])))"

definition ascii_lower :: "char \<Rightarrow> char" where
  "ascii_lower c =
     (case map_of (zip ''ABCDEFGHIJKLMNOPQRSTUVWXYZ'' ''abcdefghijklmnopqrstuvwxyz'') c of
        None \<Rightarrow> c
      | Some l \<Rightarrow> l)"

text \<open>Whether \<^verbatim>\<open>signature=\<close> stands at the head of a string, letters in either case.\<close>

definition at_signature :: "string \<Rightarrow> bool" where
  "at_signature cs = (map ascii_lower (take 10 cs) = ''signature='')"

definition skip_value :: "string \<Rightarrow> string" where
  "skip_value cs = dropWhile (\<lambda>c. c \<noteq> CHR ''&'') (drop 10 cs)"

fun strip_amp_signature :: "string \<Rightarrow> string" where
  "strip_amp_signature [] = []"
| "strip_amp_signature (c # cs) =
     (if c = CHR ''&'' \<and> at_signature cs then skip_value cs else c # strip_amp_signature cs)"

text \<open>\<^verbatim>\<open>s.replace(/(^|&)signature=[^&]*/i, '')\<close>: the first match only.\<close>

definition strip_signature :: "string \<Rightarrow> string" where
  "strip_signature s = (if at_signature s then skip_value s else strip_amp_signature s)"

text \<open>\<^verbatim>\<open>s.replace(/^&/, '')\<close> and \<^verbatim>\<open>s.replace(/&$/, '')\<close>.\<close>

definition strip_leading_amp :: "string \<Rightarrow> string" where
  "strip_leading_amp s = (case s of [] \<Rightarrow> [] | c # cs \<Rightarrow> if c = CHR ''&'' then cs else s)"

definition strip_trailing_amp :: "string \<Rightarrow> string" where
  "strip_trailing_amp s = (if s \<noteq> [] \<and> last s = CHR ''&'' then butlast s else s)"

text \<open>Lines 1222 to 1248: the signing string and the digest the handler computes.\<close>

definition itn_signingString :: "platform \<Rightarrow> string \<Rightarrow> string js_object \<Rightarrow> string" where
  "itn_signingString p rawBodyString data =
     (if rawBodyString \<noteq> []
      then strip_trailing_amp (strip_leading_amp (strip_signature rawBodyString))
      else
        (let signingData = AList.delete ''signature'' data;
             sortedKeys = sort (map fst signingData)
         in js_join ''&''
              (map (\<lambda>key. key @ ''='' @
                      replace_pct20 (encodeURIComponent p (js_str (js_get signingData key))))
                 sortedKeys)))"

definition itn_calculatedSignature :: "platform \<Rightarrow> string \<Rightarrow> string \<Rightarrow> string js_object \<Rightarrow> string" where
  "itn_calculatedSignature p passphrase rawBodyString data =
     (let signingString = itn_signingString p rawBodyString data;
          finalString = (if passphrase \<noteq> [] then signingString @ ''&passphrase='' @ passphrase
                         else signingString)
      in md5_hex p finalString)"

text \<open>What the handler takes from a verified notification before it reads the store.\<close>

record itn_fields =
  if_paymentId :: string
  if_uid :: string
  if_amount :: jsnum
  if_pfPaymentId :: "string option"
  if_payment_method :: "string option"
  if_payment_status :: "string option"

datatype itn_outcome = Respond http_response | Credit itn_fields

text \<open>
  Lines 1157 to 1302: everything the handler does without the store.
  \<^verbatim>\<open>Number(undefined)\<close> is \<open>NaN\<close>.
\<close>

definition itn_request :: "platform \<Rightarrow> env \<Rightarrow> http_request \<Rightarrow> itn_outcome" where
  "itn_request p e req =
     (if rq_method req \<noteq> ''POST'' then Respond (respond 405 ''Method not allowed'')
      else
        (case itn_decode p req of
           None \<Rightarrow> Respond (respond 200 ''OK'')
         | Some (rawBodyString, data) \<Rightarrow>
             (let merchantKey = cleanPf p (PAYFAST_MERCHANT_KEY e);
                  passphrase = cleanPf p (Some (str_or (PAYFAST_PASSPHRASE e) []))
              in if merchantKey = [] then Respond (respond 500 ''Configuration error'')
                 else
                   (case str_or_null (js_get data ''signature'') of
                      None \<Rightarrow> Respond (respond 400 ''Missing signature'')
                    | Some receivedSignature \<Rightarrow>
                        if receivedSignature \<noteq> itn_calculatedSignature p passphrase rawBodyString data
                        then Respond (respond 400 ''Invalid signature'')
                        else if js_get data ''payment_status'' \<noteq> Some ''COMPLETE''
                        then Respond (respond 200 ''OK'')
                        else
                          (let paymentId = str_or (js_get data ''m_payment_id'') [];
                               uid = str_or (js_get data ''custom_str1'') [];
                               amount = (case js_get data ''amount_gross'' of
                                           None \<Rightarrow> NaN
                                         | Some v \<Rightarrow> toNumber p v)
                           in if paymentId = [] \<or> uid = [] \<or> js_falsy amount \<or> isNaN amount
                              then Respond (respond 400 ''Missing required fields'')
                              else Credit \<lparr> if_paymentId = paymentId, if_uid = uid,
                                            if_amount = amount,
                                            if_pfPaymentId = js_get data ''pf_payment_id'',
                                            if_payment_method = js_get data ''payment_method'',
                                            if_payment_status = js_get data ''payment_status'' \<rparr>)))))"

text \<open>
  The callback of the transaction, lines 1348 to 1407: the read of the wallet of
  \<open>uid\<close> and the three writes.
\<close>

definition payfastITN_tx :: "string \<Rightarrow> nat \<Rightarrow> itn_fields \<Rightarrow> store \<Rightarrow> https_error + tx_write list" where
  "payfastITN_tx base now f s =
     (let uid = if_uid f;
          paymentId = if_paymentId f;
          wSnap = wallets s uid;
          prevBalance = snapBalance wSnap;
          newBalance = js_add prevBalance (if_amount f);
          paymentMethod = str_or (if_payment_method f) ''UNKNOWN''
      in Inr [Set_wallet uid (walletWrite wSnap uid newBalance base now),
              Set_transaction uid paymentId
                ((txEntry ''TOP_UP'' (if_amount f) base now)
                   \<lparr> tx_provider := Some ''PAYFAST'',
                     tx_paymentMethod := Some paymentMethod,
                     tx_payfastData := Some
                       \<lparr> pfd_pf_payment_id = str_or_null (if_pfPaymentId f),
                         pfd_payment_status = str_or_null (if_payment_status f),
                         pfd_payment_method = Some paymentMethod \<rparr> \<rparr>),
              Update_pending paymentId now (Some (str_or_null (if_pfPaymentId f), paymentMethod))])"

text \<open>
  Lines 1304 to 1440 after \<^verbatim>\<open>const pendingSnap = await pendingRef.get()\<close>: the checks
  are made on the snapshot that was read, the transaction runs on the store as it is
  when the transaction commits. The handler catches every error and answers 200.
\<close>

definition itn_continue ::
  "string \<Rightarrow> nat \<Rightarrow> itn_fields \<Rightarrow> pending_payment option \<Rightarrow> store \<Rightarrow> http_response \<times> store" where
  "itn_continue base now f pendingSnap s =
     (case pendingSnap of
        None \<Rightarrow> (respond 200 ''OK'', s)
      | Some pending \<Rightarrow>
          if pp_status pending = ''COMPLETED'' then (respond 200 ''OK'', s)
          else
            (case runTransaction (payfastITN_tx base now f) s of
               Inl err \<Rightarrow> (respond 200 ''OK'', s)
             | Inr s' \<Rightarrow> (respond 200 ''OK'', s')))"

definition payfastITN :: "platform \<Rightarrow> env \<Rightarrow> nat \<Rightarrow> http_request \<Rightarrow> store \<Rightarrow> http_response \<times> store" where
  "payfastITN p e now req s =
     (case itn_request p e req of
        Respond r \<Rightarrow> (r, s)
      | Credit f \<Rightarrow>
          itn_continue (getBaseCurrency p e) now f (pending_payments s (if_paymentId f)) s)"

subsection \<open>verifyPayFastPayment\<close>

definition getPayFastBaseUrl :: "platform \<Rightarrow> env \<Rightarrow> string" where
  "getPayFastBaseUrl p e =
     (if toLowerCase p (str_or (PAYFAST_ENV e) ''sandbox'') = ''live''
      then ''https://www.payfast.co.za'' else ''https://sandbox.payfast.co.za'')"

record verify_reply =
  vr_status :: string
  vr_credited :: "jsnum option"
  vr_currency :: "string option"
  vr_paymentMethod :: "string option"
  vr_message :: "string option"

text \<open>
  The loop over \<^verbatim>\<open>detailsText.split('&')\<close>; \<^term>\<open>None\<close> when
  \<^verbatim>\<open>decodeURIComponent\<close> throws.
\<close>

definition parse_details :: "platform \<Rightarrow> string \<Rightarrow> string js_object option" where
  "parse_details p detailsText =
     fold (\<lambda>pair acc.
             (case acc of
                None \<Rightarrow> None
              | Some details \<Rightarrow>
                  (case js_split (CHR ''='') pair of
                     key # val # rest \<Rightarrow>
                       if key \<noteq> [] \<and> val \<noteq> []
                       then (case decodeURIComponent p key of
                               None \<Rightarrow> None
                             | Some k \<Rightarrow>
                                 (case decodeURIComponent p val of
                                    None \<Rightarrow> None
                                  | Some v \<Rightarrow> Some (js_set k v details)))
                       else Some details
                   | _ \<Rightarrow> Some details)))
       (js_split (CHR ''&'') detailsText) (Some [])"

text \<open>\<^verbatim>\<open>Number(details.amount_gross || 0)\<close>.\<close>

definition details_amount :: "platform \<Rightarrow> string js_object \<Rightarrow> jsnum" where
  "details_amount p details =
     (case str_or_null (js_get details ''amount_gross'') of
        None \<Rightarrow> Num 0
      | Some v \<Rightarrow> toNumber p v)"

text \<open>
  The callback of the transaction, lines 908 to 942: the read of the caller's wallet and
  the three writes.
\<close>

definition verifyPayFastPayment_tx ::
  "string \<Rightarrow> nat \<Rightarrow> string \<Rightarrow> string \<Rightarrow> jsnum \<Rightarrow> string js_object \<Rightarrow> store
   \<Rightarrow> https_error + tx_write list" where
  "verifyPayFastPayment_tx base now uid paymentId amount details s =
     (let wSnap = wallets s uid;
          prevBalance = snapBalance wSnap;
          paymentMethod = str_or (js_get details ''payment_method'') ''UNKNOWN''
      in Inr [Set_wallet uid (walletWrite wSnap uid (js_add prevBalance amount) base now),
              Set_transaction uid paymentId
                ((txEntry ''TOP_UP'' amount base now)
                   \<lparr> tx_provider := Some ''PAYFAST'',
                     tx_paymentMethod := Some paymentMethod,
                     tx_payfastData := Some
                       \<lparr> pfd_pf_payment_id = str_or_null (js_get details ''pf_payment_id''),
                         pfd_payment_status = str_or_null (js_get details ''payment_status''),
                         pfd_payment_method = Some paymentMethod \<rparr> \<rparr>),
              Update_pending paymentId now None])"

text \<open>
  Lines 846 to 959, after \<^verbatim>\<open>const pendingSnap = await pendingRef.get()\<close> has found the
  document. \<open>fetch\<close> is the gateway: the text of the response to a URL, \<^term>\<open>None\<close>
  when the request throws. The message of the \<open>internal\<close> error is cut after its
  fixed part.
\<close>

definition verify_continue ::
  "platform \<Rightarrow> env \<Rightarrow> (string \<Rightarrow> string option) \<Rightarrow> nat \<Rightarrow> string \<Rightarrow> string
   \<Rightarrow> pending_payment \<Rightarrow> store \<Rightarrow> verify_reply result \<times> store" where
  "verify_continue p e fetch now uid paymentId pending s =
     (if pp_status pending = ''COMPLETED''
      then (Inr \<lparr> vr_status = ''SUCCESS'',
                  vr_credited = Some (num_or_zero (pp_amount pending)),
                  vr_currency = Some (str_or (pp_currency pending) (getBaseCurrency p e)),
                  vr_paymentMethod = Some (str_or (pp_paymentMethod pending) ''UNKNOWN''),
                  vr_message = None \<rparr>, s)
      else
        (let pfPaymentId = str_or (pp_pfPaymentId pending)
                             (str_or (pp_payfastData_pf_payment_id pending) [])
         in if pfPaymentId = []
            then (Inr \<lparr> vr_status = ''PENDING'', vr_credited = None, vr_currency = None,
                        vr_paymentMethod = None,
                        vr_message = Some ''Payment processing, please wait a moment'' \<rparr>, s)
            else
              (let merchantId = cleanPf p (PAYFAST_MERCHANT_ID e);
                   merchantKey = cleanPf p (PAYFAST_MERCHANT_KEY e);
                   passphrase = cleanPf p (Some (str_or (PAYFAST_PASSPHRASE e) []));
                   queryData = [(''merchant_id'', Some merchantId),
                                (''merchant_key'', Some merchantKey),
                                (''pf_payment_id'', Some pfPaymentId)];
                   signature = generatePayFastSignature p queryData passphrase
                                 \<lparr> includeEmpty = Some True, excludeKeys = None \<rparr>;
                   queryData' = js_set ''signature'' (Some signature) queryData;
                   queryString = fst (buildPayFastQueryString p queryData' default_opts);
                   baseUrl = getPayFastBaseUrl p e;
                   failed = (Inl (HttpsError Internal ''PayFast verification failed''), s);
                   notYet = (Inr \<lparr> vr_status = ''PENDING'', vr_credited = None,
                                   vr_currency = None, vr_paymentMethod = None,
                                   vr_message = Some ''Payment not yet complete'' \<rparr>, s)
               in case fetch (baseUrl @ ''/eng/query/validate?'' @ queryString) of
                    None \<Rightarrow> failed
                  | Some result \<Rightarrow>
                      if result \<noteq> ''VALID'' then notYet
                      else
                        (case fetch (baseUrl @ ''/eng/query/get?'' @ queryString) of
                           None \<Rightarrow> failed
                         | Some detailsText \<Rightarrow>
                             (case parse_details p detailsText of
                                None \<Rightarrow> failed
                              | Some details \<Rightarrow>
                                  if js_get details ''payment_status'' \<noteq> Some ''COMPLETE''
                                  then notYet
                                  else
                                    (let amount = details_amount p details;
                                         base = getBaseCurrency p e;
                                         reply = \<lparr> vr_status = ''SUCCESS'',
                                                   vr_credited = Some amount,
                                                   vr_currency = Some base,
                                                   vr_paymentMethod = js_get details ''payment_method'',
                                                   vr_message = None \<rparr>
                                     in if pp_status pending \<noteq> ''COMPLETED''
                                        then
                                          (case runTransaction
                                                  (verifyPayFastPayment_tx base now uid paymentId
                                                     amount details) s of
                                             Inl err \<Rightarrow> failed
                                           | Inr s' \<Rightarrow> (Inr reply, s'))
                                        else (Inr reply, s)))))))"

definition verifyPayFastPayment ::
  "platform \<Rightarrow> env \<Rightarrow> (string \<Rightarrow> string option) \<Rightarrow> nat \<Rightarrow> string option \<Rightarrow> string
   \<Rightarrow> store \<Rightarrow> verify_reply result \<times> store" where
  "verifyPayFastPayment p e fetch now auth paymentId s =
     (case uidOrThrow auth of
        Inl err \<Rightarrow> (Inl err, s)
      | Inr uid \<Rightarrow>
          if paymentId = [] then (Inl (HttpsError Invalid_argument ''paymentId required''), s)
          else if cleanPf p (PAYFAST_MERCHANT_ID e) = [] \<or> cleanPf p (PAYFAST_MERCHANT_KEY e) = []
          then (Inl (HttpsError Failed_precondition ''PayFast credentials not configured''), s)
          else
            (case pending_payments s paymentId of
               None \<Rightarrow> (Inl (HttpsError Not_found ''Payment not found''), s)
             | Some pending \<Rightarrow> verify_continue p e fetch now uid paymentId pending s))"

subsection \<open>A platform, an environment and stores for the examples\<close>

text \<open>
  The examples use ASCII text without blanks, escapes or lower-case letters where case
  matters, on which URI coding, \<^verbatim>\<open>trim\<close> and the case mappings change nothing; a
  number is read from an unsigned decimal literal and rounded to binary64. The digest of
  the example platform writes \<open>;\<close> for \<open>&\<close> and \<open>:\<close> for \<open>=\<close>: like a hexadecimal
  digest it holds neither \<open>&\<close> nor \<open>=\<close>, and on the strings of the examples, which
  hold neither \<open>;\<close> nor \<open>:\<close>, different strings have different digests.
\<close>

definition digit_val :: "char \<Rightarrow> nat option" where
  "digit_val c =
     (let n = (of_char c :: nat) in if 48 \<le> n \<and> n \<le> 57 then Some (n - 48) else None)"

fun digits_val :: "string \<Rightarrow> nat \<Rightarrow> nat option" where
  "digits_val [] acc = Some acc"
| "digits_val (c # cs) acc =
     (case digit_val c of None \<Rightarrow> None | Some d \<Rightarrow> digits_val cs (10 * acc + d))"

definition decimal_number :: "string \<Rightarrow> jsnum" where
  "decimal_number s =
     (case js_split (CHR ''.'') s of
        [i] \<Rightarrow>
          (if i = [] then NaN
           else (case digits_val i 0 of None \<Rightarrow> NaN | Some n \<Rightarrow> fl (of_nat n)))
      | [i, f] \<Rightarrow>
          (if i = [] \<or> f = [] then NaN
           else (case digits_val i 0 of
                   None \<Rightarrow> NaN
                 | Some a \<Rightarrow>
                     (case digits_val f 0 of
                        None \<Rightarrow> NaN
                      | Some b \<Rightarrow> fl (of_nat a + of_nat b / 10 ^ length f))))
      | _ \<Rightarrow> NaN)"

definition form_pairs :: "string \<Rightarrow> (string \<times> string) list" where
  "form_pairs s =
     map (\<lambda>pair. (takeWhile (\<lambda>c. c \<noteq> CHR ''='') pair,
                   drop 1 (dropWhile (\<lambda>c. c \<noteq> CHR ''='') pair)))
       (filter (\<lambda>pair. pair \<noteq> []) (js_split (CHR ''&'') s))"

definition byte_compare :: "string \<Rightarrow> string \<Rightarrow> int" where
  "byte_compare a b = (if a < b then - 1 else if a = b then 0 else 1)"

definition example_digest :: "string \<Rightarrow> string" where
  "example_digest s =
     map (\<lambda>c. if c = CHR ''&'' then CHR '';'' else if c = CHR ''='' then CHR '':'' else c) s"

definition example_platform :: platform where
  "example_platform =
     \<lparr> md5_hex = example_digest, encodeURIComponent = (\<lambda>s. s), decodeURIComponent = Some,
       urlSearchParams = form_pairs, string_trim = (\<lambda>s. s), toUpperCase = (\<lambda>s. s),
       toNumber = decimal_number, toLowerCase = (\<lambda>s. s), localeCompare = byte_compare \<rparr>"

definition example_env :: env where
  "example_env =
     \<lparr> APP_BASE_CURRENCY = None, APP_PLATFORM_FEE_RATE = None,
       PAYFAST_MERCHANT_ID = Some ''10044172'', PAYFAST_MERCHANT_KEY = Some ''KEY'',
       PAYFAST_PASSPHRASE = None, PAYFAST_ENV = None \<rparr>"

definition empty_store :: store where
  "empty_store =
     \<lparr> wallets = Map.empty, transactions = Map.empty, pending_payments = Map.empty,
       rides = Map.empty, drivers_live = Map.empty \<rparr>"

definition wallet_of :: "string \<Rightarrow> rat \<Rightarrow> wallet" where
  "wallet_of uid b =
     \<lparr> w_uid = Some uid, w_balance = Some (Num b), w_currency = Some ''ZAR'',
       w_updatedAt = Some 0, w_createdAt = Some 0 \<rparr>"

definition pending_of :: "string \<Rightarrow> rat \<Rightarrow> pending_payment" where
  "pending_of uid a =
     \<lparr> pp_uid = uid, pp_amount = Some (Num a), pp_currency = Some ''ZAR'',
       pp_status = ''PENDING'', pp_provider = ''PAYFAST'', pp_createdAt = 0,
       pp_completedAt = None, pp_pfPaymentId = Some ''777'', pp_paymentMethod = None,
       pp_payfastData_pf_payment_id = None \<rparr>"

definition trip :: "string \<Rightarrow> string \<Rightarrow> rat \<Rightarrow> ride" where
  "trip rider driver fare =
     \<lparr> r_userId = rider, r_status = ''on_trip'', r_payment_status = None,
       r_payment_lastError = None, r_driver_id = Some driver,
       r_estimatedFareZAR = Some (Num fare), r_updatedAt = None \<rparr>"

text \<open>
  A has 100 and B has no wallet yet; A has a pending top-up P1 of 100 whose gateway
  payment id is known, and is on the trip R1 with the driver B at a fare of 100.
\<close>

definition example_store :: store where
  "example_store =
     empty_store
       \<lparr> wallets := [''A'' \<mapsto> wallet_of ''A'' 100],
         pending_payments := [''P1'' \<mapsto> pending_of ''A'' 100],
         rides := [''R1'' \<mapsto> trip ''A'' ''B'' 100] \<rparr>"

text \<open>
  The same store with A as the driver of the own trip; with a fare of 0.75 for the trip
  with B; and with a wallet of \<open>2 ^ 53\<close> for B.
\<close>

definition own_trip_store :: store where
  "own_trip_store = example_store \<lparr> rides := [''R1'' \<mapsto> trip ''A'' ''A'' 100] \<rparr>"

definition short_trip_store :: store where
  "short_trip_store = example_store \<lparr> rides := [''R1'' \<mapsto> trip ''A'' ''B'' (3 / 4)] \<rparr>"

definition large_wallet_store :: store where
  "large_wallet_store =
     example_store
       \<lparr> wallets := [''A'' \<mapsto> wallet_of ''A'' 100, ''B'' \<mapsto> wallet_of ''B'' 9007199254740992] \<rparr>"

text \<open>
  A notification that completes P1 for A, its body already parsed, with the signature of
  its signing string under the example digest and no passphrase. The same notification
  with B in \<open>custom_str1\<close>. A gateway that confirms the payment of 100. A directory in
  which ROOT is an administrator.
\<close>

definition example_notification :: http_request where
  "example_notification =
     \<lparr> rq_method = ''POST'', rq_rawBody = None,
       rq_body = BodyObject
         [(''m_payment_id'', ''P1''), (''custom_str1'', ''A''), (''amount_gross'', ''100.00''),
          (''payment_status'', ''COMPLETE''),
          (''signature'',
             ''amount_gross:100.00;custom_str1:A;m_payment_id:P1;payment_status:COMPLETE'')] \<rparr>"

definition other_uid_notification :: http_request where
  "other_uid_notification =
     \<lparr> rq_method = ''POST'', rq_rawBody = None,
       rq_body = BodyObject
         [(''m_payment_id'', ''P1''), (''custom_str1'', ''B''), (''amount_gross'', ''100.00''),
          (''payment_status'', ''COMPLETE''),
          (''signature'',
             ''amount_gross:100.00;custom_str1:B;m_payment_id:P1;payment_status:COMPLETE'')] \<rparr>"

definition example_gateway :: "string \<Rightarrow> string option" where
  "example_gateway url =
     (if take 48 url = ''https://sandbox.payfast.co.za/eng/query/validate'' then Some ''VALID''
      else Some ''payment_status=COMPLETE&amount_gross=100.00&payment_method=cc'')"

definition example_directory :: "string \<rightharpoonup> auth_user" where
  "example_directory = [''ROOT'' \<mapsto> \<lparr> au_admin = True \<rparr>]"

text \<open>The fields the handler takes from the notification for A.\<close>

definition example_fields :: itn_fields where
  "example_fields =
     \<lparr> if_paymentId = ''P1'', if_uid = ''A'', if_amount = Num 100, if_pfPaymentId = None,
       if_payment_method = None, if_payment_status = Some ''COMPLETE'' \<rparr>"

section \<open>Properties\<close>

subsection \<open>Rounding\<close>

lemma powi_neg: "0 \<le> n \<Longrightarrow> (2::rat) powi (- n) = 1 / 2 ^ nat n"
  by (simp add: power_int_minus power_int_nonneg_exp inverse_eq_divide)

lemma ilog2_bounds:
  assumes "0 < x"
  shows "2 powi (ilog2 x) \<le> x" and "x < 2 powi (ilog2 x + 1)"
proof -
  show "2 powi (ilog2 x) \<le> x"
  proof (cases "1 \<le> x")
    case True
    then have pos: "0 < \<lfloor>x\<rfloor>" by linarith
    from bitlen_bounds [OF pos] have "2 ^ nat (bitlen \<lfloor>x\<rfloor> - 1) \<le> \<lfloor>x\<rfloor>" by simp
    then have "(of_int (2 ^ nat (bitlen \<lfloor>x\<rfloor> - 1)) :: rat) \<le> of_int \<lfloor>x\<rfloor>"
      by (simp only: of_int_le_iff)
    also have "\<dots> \<le> x" by simp
    finally have "(2::rat) ^ nat (bitlen \<lfloor>x\<rfloor> - 1) \<le> x" by simp
    moreover have "1 \<le> bitlen \<lfloor>x\<rfloor>" using pos by (auto simp: bitlen_alt_def)
    ultimately show ?thesis using True by (simp add: ilog2_def power_int_def)
  next
    case False
    let ?c = "\<lceil>1 / x\<rceil> - 1"
    have inv: "1 < 1 / x" using False assms by (simp add: field_simps)
    then have pos: "0 < ?c" by linarith
    from bitlen_bounds [OF pos] have "?c < 2 ^ nat (bitlen ?c)" by simp
    then have "\<lceil>1 / x\<rceil> \<le> 2 ^ nat (bitlen ?c)" by linarith
    then have "1 / x \<le> of_int (2 ^ nat (bitlen ?c))"
      by (simp only: ceiling_le_iff)
    then have "1 / x \<le> 2 ^ nat (bitlen ?c)" by simp
    then have "1 / 2 ^ nat (bitlen ?c) \<le> x"
      using assms by (simp add: field_simps)
    moreover have "2 powi (- bitlen ?c) = (1::rat) / 2 ^ nat (bitlen ?c)"
      by (simp add: power_int_minus power_int_nonneg_exp bitlen_nonneg inverse_eq_divide)
    ultimately show ?thesis using False by (simp add: ilog2_def)
  qed
  show "x < 2 powi (ilog2 x + 1)"
  proof (cases "1 \<le> x")
    case True
    then have pos: "0 < \<lfloor>x\<rfloor>" by linarith
    from bitlen_bounds [OF pos] have "\<lfloor>x\<rfloor> < 2 ^ nat (bitlen \<lfloor>x\<rfloor>)" by simp
    then have "\<lfloor>x\<rfloor> + 1 \<le> 2 ^ nat (bitlen \<lfloor>x\<rfloor>)" by linarith
    then have "(of_int (\<lfloor>x\<rfloor> + 1) :: rat) \<le> of_int (2 ^ nat (bitlen \<lfloor>x\<rfloor>))"
      by (simp only: of_int_le_iff)
    moreover have "x < of_int (\<lfloor>x\<rfloor> + 1)" by linarith
    ultimately have "x < 2 ^ nat (bitlen \<lfloor>x\<rfloor>)" by simp
    moreover have "0 \<le> bitlen \<lfloor>x\<rfloor>" by (rule bitlen_nonneg)
    ultimately show ?thesis using True by (simp add: ilog2_def power_int_def)
  next
    case False
    let ?c = "\<lceil>1 / x\<rceil> - 1"
    have inv: "1 < 1 / x" using False assms by (simp add: field_simps)
    then have pos: "0 < ?c" by linarith
    have one: "1 \<le> bitlen ?c" using pos by (auto simp: bitlen_alt_def)
    from bitlen_bounds [OF pos] have "2 ^ nat (bitlen ?c - 1) \<le> ?c" by simp
    then have "(of_int (2 ^ nat (bitlen ?c - 1)) :: rat) \<le> of_int ?c"
      by (simp only: of_int_le_iff)
    moreover have "of_int ?c < 1 / x" by linarith
    ultimately have "2 ^ nat (bitlen ?c - 1) < 1 / x" by simp
    then have "x < 1 / 2 ^ nat (bitlen ?c - 1)"
      using assms by (simp add: field_simps)
    moreover have "2 powi (- bitlen ?c + 1) = (1::rat) / 2 ^ nat (bitlen ?c - 1)"
      using powi_neg [of "bitlen ?c - 1"] one by simp
    ultimately show ?thesis using False by (simp add: ilog2_def)
  qed
qed

lemma ilog2_unique:
  assumes "2 powi e \<le> x" and "x < 2 powi (e + 1)"
  shows "ilog2 x = e"
proof -
  have pos: "0 < x" using assms(1) zero_less_power_int [of "2::rat" e] by linarith
  note b = ilog2_bounds [OF pos]
  have lt: "m < n" if "2 powi m < (2::rat) powi n" for m n :: int
  proof (rule ccontr)
    assume "\<not> m < n"
    then have "(2::rat) powi n \<le> 2 powi m" by (intro power_int_increasing) simp_all
    with that show False by simp
  qed
  have "2 powi e < (2::rat) powi (ilog2 x + 1)" using assms(1) b(2) by linarith
  then have "e < ilog2 x + 1" by (rule lt)
  moreover have "2 powi (ilog2 x) < (2::rat) powi (e + 1)" using assms(2) b(1) by linarith
  then have "ilog2 x < e + 1" by (rule lt)
  ultimately show ?thesis by simp
qed

lemma rne_of_int [simp]: "rne (of_int k) = k"
  by (simp add: rne_def)

lemma rne_le: "z \<le> of_int k \<Longrightarrow> rne z \<le> k"
  by (auto simp: rne_def Let_def) linarith+

lemma rne_ge: "of_int k \<le> z \<Longrightarrow> k \<le> rne z"
  by (auto simp: rne_def Let_def) linarith+

lemma fl_normal:
  assumes "2 powi e \<le> \<bar>x\<bar>" and "\<bar>x\<bar> < 2 powi (e + 1)" and "- 1022 \<le> e" and "e \<le> 1022"
  shows "fl x = Num (of_int (rne (x / 2 powi (e - 52))) * 2 powi (e - 52))"
proof -
  let ?q = "(2::rat) powi (e - 52)"
  let ?m = "rne (x / ?q)"
  have q: "0 < ?q" by simp
  have pw: "0 < (2::rat) powi e" by simp
  have "0 < \<bar>x\<bar>" by (rule less_le_trans [OF pw assms(1)])
  then have x: "x \<noteq> 0" by simp
  have e: "ilog2 \<bar>x\<bar> = e" by (rule ilog2_unique [OF assms(1,2)])
  have split: "(2::rat) powi (e + 1) = 2 ^ 53 * ?q"
    using power_int_add [of "2::rat" 53 "e - 52"] by (simp add: add.commute)
  have "x / ?q \<le> of_int (2 ^ 53)"
    using assms(2) q unfolding split by (simp add: field_simps abs_less_iff)
  then have up: "?m \<le> 2 ^ 53" by (rule rne_le)
  have "of_int (- (2 ^ 53)) \<le> x / ?q"
    using assms(2) q unfolding split by (simp add: field_simps abs_less_iff)
  then have lo: "- (2 ^ 53) \<le> ?m" by (rule rne_ge)
  have "\<bar>of_int ?m * ?q\<bar> = \<bar>of_int ?m :: rat\<bar> * ?q" by (simp add: abs_mult)
  also have "\<dots> \<le> 2 ^ 53 * ?q"
  proof -
    have "\<bar>?m\<bar> \<le> 2 ^ 53" using up lo by linarith
    then have "(of_int \<bar>?m\<bar> :: rat) \<le> of_int (2 ^ 53)" by (simp only: of_int_le_iff)
    then have "\<bar>of_int ?m :: rat\<bar> \<le> 2 ^ 53" by simp
    then show ?thesis using q by (simp add: mult_right_mono)
  qed
  also have "\<dots> = 2 powi (e + 1)" by (simp add: split)
  also have "\<dots> \<le> 2 powi 1023" using assms(4) by (intro power_int_increasing) simp_all
  also have "\<dots> < (2::rat) powi 1024" by (intro power_int_strict_increasing) simp_all
  finally have bound: "\<bar>of_int ?m * ?q\<bar> < 2 powi 1024" .
  have "max (ilog2 \<bar>x\<bar>) (- 1022) - 52 = e - 52" using assms(3) by (simp add: e)
  then show ?thesis
    using x bound unfolding fl_def Let_def by (simp only: if_False) (simp add: abs_less_iff not_le)
qed

lemma fl_exact:
  assumes "\<bar>m\<bar> < 2 ^ 53" and "- 1074 \<le> k" and "k \<le> 970"
  shows "fl (of_int m * 2 powi k) = Num (of_int m * 2 powi k)"
proof (cases "m = 0")
  case True
  then show ?thesis by (simp add: fl_def)
next
  case False
  let ?x = "of_int m * (2::rat) powi k"
  let ?j = "max (ilog2 \<bar>?x\<bar>) (- 1022) - 52"
  have x: "?x \<noteq> 0" using False by simp
  have pos: "0 < \<bar>?x\<bar>" using x by simp
  have "(of_int \<bar>m\<bar> :: rat) < of_int (2 ^ 53)" using assms(1) by (simp only: of_int_less_iff)
  then have m: "\<bar>of_int m :: rat\<bar> < 2 ^ 53" by simp
  have "\<bar>?x\<bar> = \<bar>of_int m :: rat\<bar> * 2 powi k" by (simp add: abs_mult)
  also have "\<dots> < 2 ^ 53 * 2 powi k" using m by (simp add: mult_strict_right_mono)
  also have "\<dots> = 2 powi (53 + k)" using power_int_add [of "2::rat" 53 k] by simp
  finally have ub: "\<bar>?x\<bar> < 2 powi (53 + k)" .
  have "ilog2 \<bar>?x\<bar> < 53 + k"
  proof (rule ccontr)
    assume "\<not> ilog2 \<bar>?x\<bar> < 53 + k"
    then have "(2::rat) powi (53 + k) \<le> 2 powi (ilog2 \<bar>?x\<bar>)"
      by (intro power_int_increasing) simp_all
    with ilog2_bounds(1) [OF pos] ub show False by linarith
  qed
  then have j: "?j \<le> k" using assms(2) by simp
  have "(2::rat) powi k = 2 powi (k - ?j) * 2 powi ?j"
    using power_int_add [of "2::rat" "k - ?j" ?j] by simp
  also have "(2::rat) powi (k - ?j) = of_int (2 ^ nat (k - ?j))"
    using j by (simp add: power_int_nonneg_exp)
  finally have E: "?x = of_int (m * 2 ^ nat (k - ?j)) * 2 powi ?j" by simp
  moreover have "(2::rat) powi ?j \<noteq> 0" by simp
  ultimately have D: "?x / 2 powi ?j = of_int (m * 2 ^ nat (k - ?j))"
    by (metis nonzero_mult_div_cancel_right)
  have "of_int (rne (?x / 2 powi ?j)) * 2 powi ?j = of_int (m * 2 ^ nat (k - ?j)) * 2 powi ?j"
    by (simp only: D rne_of_int)
  also have "\<dots> = ?x" by (rule E [symmetric])
  finally have r: "of_int (rne (?x / 2 powi ?j)) * 2 powi ?j = ?x" .
  have "\<bar>?x\<bar> < 2 powi (53 + k)" by (rule ub)
  also have "\<dots> \<le> 2 powi 1023" using assms(3) by (intro power_int_increasing) simp_all
  also have "\<dots> < (2::rat) powi 1024" by (intro power_int_strict_increasing) simp_all
  finally have bound: "\<bar>?x\<bar> < 2 powi 1024" .
  show ?thesis
    using x bound unfolding fl_def Let_def r by (simp only: if_False) (simp add: abs_less_iff not_le)
qed

lemma floor_rat_numeral [simp]:
  "\<lfloor>numeral a / numeral b :: rat\<rfloor> = numeral a div numeral b"
  using floor_divide_of_int_eq [of "numeral a" "numeral b", where ?'a = rat] by simp

lemma fl_of_int: "\<bar>n\<bar> < 2 ^ 53 \<Longrightarrow> fl (of_int n) = Num (of_int n)"
  using fl_exact [of n 0] by simp

lemma fl_numeral [simp]:
  "numeral n < (9007199254740992::int) \<Longrightarrow> fl (numeral n) = Num (numeral n)"
  "numeral n < (9007199254740992::int) \<Longrightarrow> fl (- numeral n) = Num (- numeral n)"
  "fl 0 = Num 0" "fl 1 = Num 1"
  using fl_of_int [of "numeral n"] fl_of_int [of "- numeral n"] fl_of_int [of 0] fl_of_int [of 1]
  by simp_all


lemma fl_not_NaN [simp]: "fl x \<noteq> NaN"
  by (simp add: fl_def Let_def)

lemma js_positive:
  "js_lt (Num 0) x \<longleftrightarrow> \<not> (js_falsy x \<or> isNaN x \<or> js_le x (Num 0))"
  by (cases x) (auto simp: js_falsy_def isNaN_def js_le_def)

subsection \<open>Reading a balance\<close>

lemma snapBalance_not_NaN [simp]: "snapBalance snap \<noteq> NaN"
  by (auto simp: snapBalance_def num_or_zero_def js_falsy_def split: option.splits)

lemma snapBalance_walletWrite:
  "bal \<noteq> NaN \<Longrightarrow> snapBalance (Some (walletWrite snap uid bal ccy now)) = bal"
  by (auto simp: snapBalance_def walletWrite_def num_or_zero_def js_falsy_def)

lemma example_store_facts:
  "walletBalance example_store ''A'' = Num 100"
  "walletBalance example_store ''B'' = Num 0"
  "wallets example_store ''B'' = None"
  "transactions example_store = Map.empty"
  by (simp_all add: walletBalance_def example_store_def empty_store_def snapBalance_def
      wallet_of_def num_or_zero_def js_falsy_def)

lemma example_currency: "getBaseCurrency example_platform example_env = ''ZAR''"
  by (simp add: getBaseCurrency_def example_platform_def example_env_def str_or_def
      APP_DEFAULT_CCY_def)

text \<open>
  C10. For an authenticated caller whose wallet document does not exist,
  \<open>getWalletBalance\<close> returns the balance 0 and the configured base currency, and the
  store it leaves is the store it found: no wallet document is created.
\<close>

theorem getWalletBalance_missing_wallet:
  assumes "auth = Some uid" and "uid \<noteq> []" and "wallets s uid = None"
  shows "getWalletBalance p e auth s
           = (Inr \<lparr> br_balance = Num 0, br_currency = getBaseCurrency p e \<rparr>, s)"
  using assms by (simp add: getWalletBalance_def uidOrThrow_def)

theorem getWalletBalance_missing_wallet_witness:
  "getWalletBalance example_platform example_env (Some ''B'') example_store
     = (Inr \<lparr> br_balance = Num 0, br_currency = ''ZAR'' \<rparr>, example_store)
   \<and> wallets (snd (getWalletBalance example_platform example_env (Some ''B'') example_store)) ''B''
       = None"
proof -
  note w = example_store_facts(3)
  show ?thesis
    using getWalletBalance_missing_wallet [OF refl _ w, of example_platform example_env] w
      example_currency
    by simp
qed

subsection \<open>transferFunds\<close>

lemma transferFunds_error_unchanged:
  "transferFunds p e now debitId creditId auth d s = (Inl err, s') \<Longrightarrow> s' = s"
  by (auto simp: transferFunds_def split: sum.splits if_splits)

lemma transferFunds_valid:
  assumes "auth = Some fromUid" and "fromUid \<noteq> []"
    and "tp_toUid d \<noteq> []" and "tp_toUid d \<noteq> fromUid"
    and "js_lt (Num 0) (tp_amount d)"
  shows "transferFunds p e now debitId creditId auth d s
           = (case runTransaction
                     (transferFunds_tx (getBaseCurrency p e) now fromUid (tp_toUid d) (tp_amount d)
                        (tp_note d) debitId creditId) s of
                Inl err \<Rightarrow> (Inl err, s)
              | Inr s' \<Rightarrow> (Inr ''SUCCESS'', s'))"
  using assms(1-4) assms(5) [unfolded js_positive]
  by (simp add: transferFunds_def uidOrThrow_def)

text \<open>The writes of a transfer that the sender's balance covers, and the store they leave.\<close>

lemma transferFunds_tx_writes:
  assumes "\<not> js_lt (walletBalance s fromUid) amt"
  shows "transferFunds_tx base now fromUid toUid amt note debitId creditId s
           = Inr [Set_wallet fromUid
                    (walletWrite (wallets s fromUid) fromUid (js_sub (walletBalance s fromUid) amt)
                       base now),
                  Set_wallet toUid
                    (walletWrite (wallets s toUid) toUid (js_add (walletBalance s toUid) amt)
                       base now),
                  Set_transaction fromUid debitId
                    ((txEntry ''TRANSFER_OUT'' amt base now)
                       \<lparr> tx_counterparty := Some toUid, tx_note := str_or_null note \<rparr>),
                  Set_transaction toUid creditId
                    ((txEntry ''TRANSFER_IN'' amt base now)
                       \<lparr> tx_counterparty := Some fromUid, tx_note := str_or_null note \<rparr>)]"
  using assms by (simp add: transferFunds_tx_def walletBalance_def Let_def)

lemma commit_transfer:
  "commit [Set_wallet u1 w1, Set_wallet u2 w2, Set_transaction u1 i1 t1, Set_transaction u2 i2 t2] s
     = Some (s\<lparr> wallets := (wallets s)(u1 \<mapsto> w1, u2 \<mapsto> w2),
               transactions := (transactions s)((u1, i1) \<mapsto> t1, (u2, i2) \<mapsto> t2) \<rparr>)"
  by simp

text \<open>
  The balances after a transfer between two finite balances: the binary64 values nearest
  to the difference and to the sum.
\<close>

lemma transferFunds_balances_rounded:
  assumes "auth = Some fromUid" and "fromUid \<noteq> []"
    and "tp_toUid d \<noteq> []" and "tp_toUid d \<noteq> fromUid"
    and "tp_amount d = Num a" and "0 < a"
    and "walletBalance s fromUid = Num b" and "a \<le> b"
    and "walletBalance s (tp_toUid d) = Num c"
  shows "fst (transferFunds p e now debitId creditId auth d s) = Inr ''SUCCESS''"
    and "walletBalance (snd (transferFunds p e now debitId creditId auth d s)) fromUid
           = fl (b - a)"
    and "walletBalance (snd (transferFunds p e now debitId creditId auth d s)) (tp_toUid d)
           = fl (c + a)"
proof -
  have covered: "\<not> js_lt (walletBalance s fromUid) (tp_amount d)"
    using assms(8) by (simp add: assms(5,7))
  have pos: "js_lt (Num 0) (tp_amount d)" using assms(6) by (simp add: assms(5))
  note run = transferFunds_valid [OF assms(1-4) pos, of p e now debitId creditId s,
      unfolded runTransaction_def transferFunds_tx_writes [OF covered] commit_transfer]
  show "fst (transferFunds p e now debitId creditId auth d s) = Inr ''SUCCESS''"
    unfolding run by simp
  show "walletBalance (snd (transferFunds p e now debitId creditId auth d s)) fromUid
          = fl (b - a)"
    unfolding run using assms(4)
    by (simp add: walletBalance_def [of "_\<lparr>wallets := _, transactions := _\<rparr>"]
        snapBalance_walletWrite assms(5,7) js_sub_def)
  show "walletBalance (snd (transferFunds p e now debitId creditId auth d s)) (tp_toUid d)
          = fl (c + a)"
    unfolding run
    by (simp add: walletBalance_def [of "_\<lparr>wallets := _, transactions := _\<rparr>"]
        snapBalance_walletWrite assms(5,9))
qed

text \<open>
  C3, as the claim states it, fails: the new balances are rounded to binary64. B holds
  \<open>2 ^ 53\<close> and A sends 1: the transfer succeeds, A's balance goes from 100 to 99 and
  B's balance is what it was, since \<open>2 ^ 53 + 1\<close> rounds to \<open>2 ^ 53\<close>. The receiver's
  balance has not increased by the amount.
\<close>

theorem transferFunds_rounds_receiver:
  "\<exists>s'. transferFunds example_platform example_env 2 ''D1'' ''C1'' (Some ''A'')
          \<lparr> tp_toUid = ''B'', tp_amount = Num 1, tp_note = None \<rparr> large_wallet_store
          = (Inr ''SUCCESS'', s')
      \<and> walletBalance large_wallet_store ''A'' = Num 100 \<and> walletBalance s' ''A'' = Num 99
      \<and> walletBalance large_wallet_store ''B'' = Num 9007199254740992
      \<and> walletBalance s' ''B'' = Num 9007199254740992"
proof -
  let ?d = "\<lparr> tp_toUid = ''B'', tp_amount = Num 1, tp_note = None \<rparr>"
  have a: "walletBalance large_wallet_store ''A'' = Num 100"
    and b: "walletBalance large_wallet_store ''B'' = Num 9007199254740992"
    by (simp_all add: walletBalance_def large_wallet_store_def example_store_def empty_store_def
        snapBalance_def wallet_of_def num_or_zero_def js_falsy_def)
  have up: "fl 9007199254740993 = Num 9007199254740992"
    using fl_normal [of 53 "9007199254740993"] by (simp add: rne_def)
  have covered: "\<not> js_lt (walletBalance large_wallet_store ''A'') (Num 1)"
    by (simp add: a)
  let ?w1 = "walletWrite (wallets large_wallet_store ''A'') ''A'' (Num 99) ''ZAR'' 2"
  let ?w2 = "walletWrite (wallets large_wallet_store ''B'') ''B'' (Num 9007199254740992) ''ZAR'' 2"
  let ?t1 = "(txEntry ''TRANSFER_OUT'' (Num 1) ''ZAR'' 2)
               \<lparr> tx_counterparty := Some ''B'', tx_note := str_or_null None \<rparr>"
  let ?t2 = "(txEntry ''TRANSFER_IN'' (Num 1) ''ZAR'' 2)
               \<lparr> tx_counterparty := Some ''A'', tx_note := str_or_null None \<rparr>"
  let ?s' = "large_wallet_store
               \<lparr> wallets := (wallets large_wallet_store)(''A'' \<mapsto> ?w1, ''B'' \<mapsto> ?w2),
                 transactions := (transactions large_wallet_store)
                   ((''A'', ''D1'') \<mapsto> ?t1, (''B'', ''C1'') \<mapsto> ?t2) \<rparr>"
  have tx: "transferFunds_tx ''ZAR'' 2 ''A'' ''B'' (Num 1) None ''D1'' ''C1'' large_wallet_store
              = Inr [Set_wallet ''A'' ?w1, Set_wallet ''B'' ?w2,
                     Set_transaction ''A'' ''D1'' ?t1, Set_transaction ''B'' ''C1'' ?t2]"
    unfolding transferFunds_tx_writes [OF covered] a b
    by (simp add: js_sub_def up)
  have run: "transferFunds example_platform example_env 2 ''D1'' ''C1'' (Some ''A'') ?d
               large_wallet_store = (Inr ''SUCCESS'', ?s')"
    using transferFunds_valid [of "Some ''A''" "''A''" ?d example_platform example_env 2
        "''D1''" "''C1''" large_wallet_store]
    by (simp add: example_currency runTransaction_def tx)
  have "walletBalance ?s' ''A'' = Num 99" "walletBalance ?s' ''B'' = Num 9007199254740992"
    by (simp_all add: walletBalance_def snapBalance_walletWrite)
  then show ?thesis using run a b by blast
qed

text \<open>
  C3, amended. A transfer from \<open>fromUid\<close> to another user \<open>toUid\<close> of a finite
  amount \<open>a > 0\<close>, from a finite balance \<open>b\<close> that covers it to a finite balance
  \<open>c\<close>, where \<open>b - a\<close> and \<open>c + a\<close> are binary64 values, completes with SUCCESS; in
  the store it leaves the sender's balance is lower by exactly \<open>a\<close>, the receiver's is
  higher by exactly \<open>a\<close>, no other wallet has changed, and the log has exactly two new
  entries, the others unchanged: a TRANSFER_OUT of \<open>a\<close> under the sender naming the
  receiver as counterparty and a TRANSFER_IN of \<open>a\<close> under the receiver naming the
  sender. The four writes are the writes queued by one transaction, which that transaction
  commits together. The two identifiers Firestore generates are new in the log they are
  used in.
\<close>

theorem transferFunds_moves_amount:
  assumes "auth = Some fromUid" and "fromUid \<noteq> []"
    and "tp_toUid d \<noteq> []" and "tp_toUid d \<noteq> fromUid"
    and "tp_amount d = Num a" and "0 < a"
    and "walletBalance s fromUid = Num b" and "a \<le> b"
    and "walletBalance s (tp_toUid d) = Num c"
    and "fl (b - a) = Num (b - a)" and "fl (c + a) = Num (c + a)"
    and "transactions s (fromUid, debitId) = None"
    and "transactions s (tp_toUid d, creditId) = None"
  shows "\<exists>w1 w2 out inn s'.
           transferFunds_tx (getBaseCurrency p e) now fromUid (tp_toUid d) (Num a) (tp_note d)
               debitId creditId s
             = Inr [Set_wallet fromUid w1, Set_wallet (tp_toUid d) w2,
                    Set_transaction fromUid debitId out,
                    Set_transaction (tp_toUid d) creditId inn]
         \<and> commit [Set_wallet fromUid w1, Set_wallet (tp_toUid d) w2,
                    Set_transaction fromUid debitId out,
                    Set_transaction (tp_toUid d) creditId inn] s = Some s'
         \<and> transferFunds p e now debitId creditId auth d s = (Inr ''SUCCESS'', s')
         \<and> walletBalance s' fromUid = Num (b - a)
         \<and> walletBalance s' (tp_toUid d) = Num (c + a)
         \<and> (\<forall>u. u \<noteq> fromUid \<and> u \<noteq> tp_toUid d \<longrightarrow> wallets s' u = wallets s u)
         \<and> dom (transactions s') - dom (transactions s)
             = {(fromUid, debitId), (tp_toUid d, creditId)}
         \<and> (\<forall>k. k \<in> dom (transactions s) \<longrightarrow> transactions s' k = transactions s k)
         \<and> transactions s' (fromUid, debitId) = Some out
         \<and> tx_type out = ''TRANSFER_OUT'' \<and> tx_counterparty out = Some (tp_toUid d)
         \<and> tx_amount out = Num a
         \<and> transactions s' (tp_toUid d, creditId) = Some inn
         \<and> tx_type inn = ''TRANSFER_IN'' \<and> tx_counterparty inn = Some fromUid
         \<and> tx_amount inn = Num a"
proof -
  let ?base = "getBaseCurrency p e" and ?to = "tp_toUid d"
  let ?w1 = "walletWrite (wallets s fromUid) fromUid (Num (b - a)) ?base now"
  let ?w2 = "walletWrite (wallets s ?to) ?to (Num (c + a)) ?base now"
  let ?out = "(txEntry ''TRANSFER_OUT'' (Num a) ?base now)
                \<lparr> tx_counterparty := Some ?to, tx_note := str_or_null (tp_note d) \<rparr>"
  let ?inn = "(txEntry ''TRANSFER_IN'' (Num a) ?base now)
                \<lparr> tx_counterparty := Some fromUid, tx_note := str_or_null (tp_note d) \<rparr>"
  let ?ws = "[Set_wallet fromUid ?w1, Set_wallet ?to ?w2,
              Set_transaction fromUid debitId ?out, Set_transaction ?to creditId ?inn]"
  let ?s' = "s\<lparr> wallets := (wallets s)(fromUid \<mapsto> ?w1, ?to \<mapsto> ?w2),
               transactions := (transactions s)
                 ((fromUid, debitId) \<mapsto> ?out, (?to, creditId) \<mapsto> ?inn) \<rparr>"
  have covered: "\<not> js_lt (walletBalance s fromUid) (Num a)"
    using assms(8) by (simp add: assms(7))
  have tx: "transferFunds_tx ?base now fromUid ?to (Num a) (tp_note d) debitId creditId s = Inr ?ws"
    unfolding transferFunds_tx_writes [OF covered] assms(7,9)
    by (simp add: js_sub_def assms(10,11))
  have com: "commit ?ws s = Some ?s'" by (rule commit_transfer)
  have pos: "js_lt (Num 0) (tp_amount d)" using assms(6) by (simp add: assms(5))
  have run: "transferFunds p e now debitId creditId auth d s = (Inr ''SUCCESS'', ?s')"
    unfolding transferFunds_valid [OF assms(1-4) pos] assms(5)
    by (simp add: runTransaction_def tx)
  have bal1: "walletBalance ?s' fromUid = Num (b - a)"
    using assms(4) by (simp add: walletBalance_def snapBalance_walletWrite)
  have bal2: "walletBalance ?s' ?to = Num (c + a)"
    by (simp add: walletBalance_def snapBalance_walletWrite)
  have frame: "\<forall>u. u \<noteq> fromUid \<and> u \<noteq> ?to \<longrightarrow> wallets ?s' u = wallets s u"
    by simp
  have new: "dom (transactions ?s') - dom (transactions s) = {(fromUid, debitId), (?to, creditId)}"
    using assms(12,13) by auto
  have kept: "\<forall>k. k \<in> dom (transactions s) \<longrightarrow> transactions ?s' k = transactions s k"
    using assms(12,13) by auto
  have e1: "transactions ?s' (fromUid, debitId) = Some ?out"
    using assms(4) by simp
  have e2: "transactions ?s' (?to, creditId) = Some ?inn"
    by simp
  have out: "tx_type ?out = ''TRANSFER_OUT''" "tx_counterparty ?out = Some ?to"
    "tx_amount ?out = Num a"
    by (simp_all add: txEntry_def)
  have inn: "tx_type ?inn = ''TRANSFER_IN''" "tx_counterparty ?inn = Some fromUid"
    "tx_amount ?inn = Num a"
    by (simp_all add: txEntry_def)
  show ?thesis
    apply (rule exI [of _ ?w1])
    apply (rule exI [of _ ?w2])
    apply (rule exI [of _ ?out])
    apply (rule exI [of _ ?inn])
    apply (rule exI [of _ ?s'])
    apply (intro conjI)
                   apply (rule tx)
                  apply (rule com)
                 apply (rule run)
                apply (rule bal1)
               apply (rule bal2)
              apply (rule frame)
             apply (rule new)
            apply (rule kept)
           apply (rule e1)
          apply (rule out(1))
         apply (rule out(2))
        apply (rule out(3))
       apply (rule e2)
      apply (rule inn(1))
     apply (rule inn(2))
    apply (rule inn(3))
    done
qed

theorem transferFunds_moves_amount_witness:
  "\<exists>s'. transferFunds example_platform example_env 1 ''D1'' ''C1'' (Some ''A'')
          \<lparr> tp_toUid = ''B'', tp_amount = Num 50, tp_note = None \<rparr> example_store
          = (Inr ''SUCCESS'', s')
      \<and> walletBalance s' ''A'' = Num 50 \<and> walletBalance s' ''B'' = Num 50
      \<and> dom (transactions s') = {(''A'', ''D1''), (''B'', ''C1'')}"
proof -
  let ?d = "\<lparr> tp_toUid = ''B'', tp_amount = Num 50, tp_note = None \<rparr>"
  note t = example_store_facts(4)
  have h: "''A'' \<noteq> []" "tp_toUid ?d \<noteq> []" "tp_toUid ?d \<noteq> ''A''" "tp_amount ?d = Num 50"
    "(0::rat) < 50" "walletBalance example_store ''A'' = Num 100" "(50::rat) \<le> 100"
    "walletBalance example_store (tp_toUid ?d) = Num 0"
    "fl (100 - 50) = Num (100 - 50)" "fl (0 + 50) = Num (0 + 50)"
    "transactions example_store (''A'', ''D1'') = None"
    "transactions example_store (tp_toUid ?d, ''C1'') = None"
    by (simp_all add: example_store_facts)
  from transferFunds_moves_amount [OF refl h, of example_platform example_env 1]
  obtain s' where
    r: "transferFunds example_platform example_env 1 ''D1'' ''C1'' (Some ''A'') ?d example_store
       = (Inr ''SUCCESS'', s')"
    and a: "walletBalance s' ''A'' = Num (100 - 50)"
    and c: "walletBalance s' (tp_toUid ?d) = Num (0 + 50)"
    and n: "dom (transactions s') - dom (transactions example_store)
           = {(''A'', ''D1''), (tp_toUid ?d, ''C1'')}"
    by blast
  have "walletBalance s' ''A'' = Num 50" using a by simp
  moreover have "walletBalance s' ''B'' = Num 50" using c by simp
  moreover have "dom (transactions s') = {(''A'', ''D1''), (''B'', ''C1'')}"
    using n by (simp add: t)
  ultimately show ?thesis using r by blast
qed

text \<open>
  C4. A transfer request that passes the checks on its arguments (a signed-in sender, a
  receiver other than the sender, an amount above 0) and asks for more than the sender's
  balance fails with \<open>failed-precondition\<close>, and the store is the one it found: no
  balance has changed and no log entry was written.
\<close>

theorem transferFunds_insufficient_balance:
  assumes "auth = Some fromUid" and "fromUid \<noteq> []"
    and "tp_toUid d \<noteq> []" and "tp_toUid d \<noteq> fromUid"
    and "js_lt (Num 0) (tp_amount d)"
    and "js_lt (walletBalance s fromUid) (tp_amount d)"
  shows "transferFunds p e now debitId creditId auth d s
           = (Inl (HttpsError Failed_precondition ''Insufficient balance''), s)"
  using assms(6) unfolding transferFunds_valid [OF assms(1-5)]
  by (simp add: runTransaction_def transferFunds_tx_def walletBalance_def)

theorem transferFunds_insufficient_balance_witness:
  "transferFunds example_platform example_env 1 ''D1'' ''C1'' (Some ''A'')
      \<lparr> tp_toUid = ''B'', tp_amount = Num 150, tp_note = None \<rparr> example_store
     = (Inl (HttpsError Failed_precondition ''Insufficient balance''), example_store)"
proof -
  let ?d = "\<lparr> tp_toUid = ''B'', tp_amount = Num 150, tp_note = None \<rparr>"
  have b: "js_lt (walletBalance example_store ''A'') (tp_amount ?d)"
    by (simp add: example_store_facts)
  show ?thesis
    by (rule transferFunds_insufficient_balance [OF refl _ _ _ _ b]) simp_all
qed

text \<open>The same for a finite amount above 0 and a finite balance below it.\<close>

lemma transferFunds_insufficient_finite:
  assumes "auth = Some fromUid" and "fromUid \<noteq> []"
    and "tp_toUid d \<noteq> []" and "tp_toUid d \<noteq> fromUid"
    and "tp_amount d = Num a" and "0 < a"
    and "walletBalance s fromUid = Num b" and "b < a"
  shows "transferFunds p e now debitId creditId auth d s
           = (Inl (HttpsError Failed_precondition ''Insufficient balance''), s)"
proof -
  have pos: "js_lt (Num 0) (tp_amount d)" using assms(6) by (simp add: assms(5))
  show ?thesis
    using assms(8) unfolding transferFunds_valid [OF assms(1-4) pos]
    by (simp add: runTransaction_def transferFunds_tx_def walletBalance_def [symmetric]
        assms(5,7))
qed

subsection \<open>Settlements and adjustments on the example stores\<close>

lemma example_literals:
  "fl (1 / 5) = Num (3602879701896397 / 18014398509481984)"
  "fl (19 / 20) = Num (4278419646001971 / 4503599627370496)"
  using fl_normal [of "- 3" "1 / 5"] fl_normal [of "- 1" "19 / 20"]
  by (simp_all add: rne_def)

lemma example_numbers:
  "decimal_number ''0.20'' = Num (3602879701896397 / 18014398509481984)"
  "decimal_number ''0.95'' = Num (4278419646001971 / 4503599627370496)"
  "decimal_number ''100.00'' = Num 100"
  by (simp_all add: decimal_number_def digit_val_def example_literals)

lemma example_feeRate:
  "feeRate example_platform example_env = Num (3602879701896397 / 18014398509481984)"
  "feeRate example_platform (example_env\<lparr> APP_PLATFORM_FEE_RATE := Some ''0.95'' \<rparr>)
     = Num (4278419646001971 / 4503599627370496)"
  by (simp_all add: feeRate_def example_platform_def example_env_def str_or_def example_numbers
      example_literals isFinite_def math_max_def math_min_def)

lemma example_split:
  "platformFee (Num 100) (Num (3602879701896397 / 18014398509481984)) = Num 20"
  "payout (Num 100) (Num (3602879701896397 / 18014398509481984)) = Num 80"
proof -
  have "fl (100 * (3602879701896397 / 18014398509481984)) = Num 20"
    using fl_normal [of 4 "100 * (3602879701896397 / 18014398509481984)"] by (simp add: rne_def)
  then show fee: "platformFee (Num 100) (Num (3602879701896397 / 18014398509481984)) = Num 20"
    by (simp add: platformFee_def)
  show "payout (Num 100) (Num (3602879701896397 / 18014398509481984)) = Num 80"
    by (simp add: payout_def fee js_sub_def)
qed

text \<open>
  At the rate 0.95, the highest the handler admits, a fare of 0.75 has the fee
  \<open>Math.round(0.7124999999999999) = 1\<close> and the payout -0.25.
\<close>

lemma short_trip_split:
  "platformFee (Num (3 / 4)) (Num (4278419646001971 / 4503599627370496)) = Num 1"
  "payout (Num (3 / 4)) (Num (4278419646001971 / 4503599627370496)) = Num (- (1 / 4))"
proof -
  have "fl (3 / 4 * (4278419646001971 / 4503599627370496))
          = Num (1604407367250739 / 2251799813685248)"
    using fl_normal [of "- 1" "3 / 4 * (4278419646001971 / 4503599627370496)"]
    by (simp add: rne_def)
  then show fee: "platformFee (Num (3 / 4)) (Num (4278419646001971 / 4503599627370496)) = Num 1"
    by (simp add: platformFee_def)
  have "fl (- (1 / 4)) = Num (- (1 / 4))"
    using fl_exact [of "- 1" "- 2"] by simp
  then show "payout (Num (3 / 4)) (Num (4278419646001971 / 4503599627370496)) = Num (- (1 / 4))"
    by (simp add: payout_def fee js_sub_def)
qed

text \<open>The writes of a settlement that passes its checks, and the store they leave.\<close>

lemma payDriverOnComplete_tx_writes:
  assumes "rides s rideId = Some rd"
    and "r_payment_status rd \<noteq> Some ''authorized''" and "r_status rd = ''on_trip''"
    and "r_userId rd = riderUid" and "r_driver_id rd = Some driverId" and "driverId \<noteq> []"
    and "r_estimatedFareZAR rd = Some (Num a)" and "0 < a"
    and "\<not> js_lt (walletBalance s riderUid) (Num a)"
  shows "payDriverOnComplete_tx base rate now riderUid rideId debitId creditId s
           = Inr [Set_wallet riderUid
                    (walletWrite (wallets s riderUid) riderUid
                       (js_sub (walletBalance s riderUid) (Num a)) base now),
                  Set_wallet driverId
                    (walletWrite (wallets s driverId) driverId
                       (js_add (walletBalance s driverId) (payout (Num a) rate)) base now),
                  Set_transaction riderUid debitId
                    ((txEntry ''RIDE_PAYMENT'' (Num a) base now)
                       \<lparr> tx_counterparty := Some driverId, tx_rideId := Some rideId,
                         tx_platformFee := Some (platformFee (Num a) rate),
                         tx_payoutToDriver := Some (payout (Num a) rate) \<rparr>),
                  Set_transaction driverId creditId
                    ((txEntry ''RIDE_EARN'' (payout (Num a) rate) base now)
                       \<lparr> tx_counterparty := Some riderUid, tx_rideId := Some rideId,
                         tx_platformFee := Some (platformFee (Num a) rate) \<rparr>),
                  Update_ride rideId now,
                  Set_driver_live driverId \<lparr> dl_occupied = False, dl_updatedAt = now \<rparr>]"
  using assms
  by (simp add: payDriverOnComplete_tx_def str_or_def num_or_zero_def js_falsy_def isFinite_def
      js_le_def walletBalance_def Let_def)

lemma commit_settlement:
  assumes "rides s rideId = Some rd"
  shows "commit [Set_wallet u1 w1, Set_wallet u2 w2, Set_transaction u1 i1 t1,
                 Set_transaction u2 i2 t2, Update_ride rideId now, Set_driver_live u2 dl] s
           = Some (s\<lparr> wallets := (wallets s)(u1 \<mapsto> w1, u2 \<mapsto> w2),
                     transactions := (transactions s)((u1, i1) \<mapsto> t1, (u2, i2) \<mapsto> t2),
                     rides := (rides s)(rideId \<mapsto>
                       rd\<lparr> r_status := ''completed'', r_payment_status := Some ''authorized'',
                           r_payment_lastError := None, r_updatedAt := Some now \<rparr>),
                     drivers_live := (drivers_live s)(u2 \<mapsto> dl) \<rparr>)"
  using assms by simp

lemma payDriverOnComplete_settles:
  assumes "auth = Some riderUid" and "riderUid \<noteq> []" and "rideId \<noteq> []"
    and "rides s rideId = Some rd"
    and "r_payment_status rd \<noteq> Some ''authorized''" and "r_status rd = ''on_trip''"
    and "r_userId rd = riderUid" and "r_driver_id rd = Some driverId" and "driverId \<noteq> []"
    and "r_estimatedFareZAR rd = Some (Num a)" and "0 < a"
    and "\<not> js_lt (walletBalance s riderUid) (Num a)"
  shows "\<exists>s'. payDriverOnComplete p e now debitId creditId auth rideId s = (Inr True, s')
              \<and> wallets s' = (wallets s)
                    (riderUid \<mapsto> walletWrite (wallets s riderUid) riderUid
                                   (js_sub (walletBalance s riderUid) (Num a))
                                   (getBaseCurrency p e) now,
                     driverId \<mapsto> walletWrite (wallets s driverId) driverId
                                   (js_add (walletBalance s driverId)
                                      (payout (Num a) (feeRate p e)))
                                   (getBaseCurrency p e) now)"
  using assms(1-3)
  by (simp add: payDriverOnComplete_def uidOrThrow_def runTransaction_def
      payDriverOnComplete_tx_writes [OF assms(4-12)] commit_settlement [OF assms(4)]
      del: commit.simps)

lemma trip_facts:
  "rides own_trip_store ''R1'' = Some (trip ''A'' ''A'' 100)"
  "rides short_trip_store ''R1'' = Some (trip ''A'' ''B'' (3 / 4))"
  "walletBalance own_trip_store ''A'' = Num 100"
  "walletBalance short_trip_store ''A'' = Num 100"
  "walletBalance short_trip_store ''B'' = Num 0"
  "wallets short_trip_store ''B'' = None"
  "r_payment_status (trip r d f) = None" "r_status (trip r d f) = ''on_trip''"
  "r_userId (trip r d f) = r" "r_driver_id (trip r d f) = Some d"
  "r_estimatedFareZAR (trip r d f) = Some (Num f)"
  by (simp_all add: own_trip_store_def short_trip_store_def example_store_def empty_store_def
      trip_def walletBalance_def snapBalance_def wallet_of_def num_or_zero_def js_falsy_def)

text \<open>
  C8, evaluated where the rider is the driver of the own trip. Both balance writes go to
  one document and the later one, the credit computed from the balance that was read,
  stands: with 100 in the wallet and a fare of 100 at the default rate, a fee of 20 and a
  payout of 80, the rider ends with 180 and has not been debited.
\<close>

theorem payDriverOnComplete_own_trip:
  "walletBalance own_trip_store ''A'' = Num 100
   \<and> platformFee (Num 100) (feeRate example_platform example_env) = Num 20
   \<and> payout (Num 100) (feeRate example_platform example_env) = Num 80
   \<and> fst (payDriverOnComplete example_platform example_env 2 ''D1'' ''C1'' (Some ''A'') ''R1''
            own_trip_store) = Inr True
   \<and> walletBalance (snd (payDriverOnComplete example_platform example_env 2 ''D1'' ''C1''
                           (Some ''A'') ''R1'' own_trip_store)) ''A'' = Num 180"
proof -
  have h: "''A'' \<noteq> []" "''R1'' \<noteq> []"
    "r_payment_status (trip ''A'' ''A'' 100) \<noteq> Some ''authorized''"
    "r_status (trip ''A'' ''A'' 100) = ''on_trip''" "r_userId (trip ''A'' ''A'' 100) = ''A''"
    "r_driver_id (trip ''A'' ''A'' 100) = Some ''A''"
    "r_estimatedFareZAR (trip ''A'' ''A'' 100) = Some (Num 100)" "(0::rat) < 100"
    "\<not> js_lt (walletBalance own_trip_store ''A'') (Num 100)"
    by (simp_all add: trip_facts)
  from payDriverOnComplete_settles [where s = own_trip_store and rideId = "''R1''"
      and riderUid = "''A''" and driverId = "''A''" and a = 100 and p = example_platform
      and e = example_env and now = 2 and debitId = "''D1''" and creditId = "''C1''",
      OF refl h(1,2) trip_facts(1) h(3,4,5,6,1,7,8,9)]
  obtain s' where run: "payDriverOnComplete example_platform example_env 2 ''D1'' ''C1''
                          (Some ''A'') ''R1'' own_trip_store = (Inr True, s')"
    and w: "wallets s' = (wallets own_trip_store)
            (''A'' \<mapsto> walletWrite (wallets own_trip_store ''A'') ''A''
                           (js_sub (walletBalance own_trip_store ''A'') (Num 100))
                           (getBaseCurrency example_platform example_env) 2,
             ''A'' \<mapsto> walletWrite (wallets own_trip_store ''A'') ''A''
                           (js_add (walletBalance own_trip_store ''A'')
                              (payout (Num 100) (feeRate example_platform example_env)))
                           (getBaseCurrency example_platform example_env) 2)"
    by blast
  have "walletBalance s' ''A'' = Num 180"
    by (simp add: walletBalance_def [of s'] w trip_facts example_feeRate example_split
        snapBalance_walletWrite)
  then show ?thesis
    unfolding run by (simp add: trip_facts example_feeRate example_split)
qed

lemma adminAdjustBalance_adjusts:
  assumes "auth = Some caller" and "caller \<noteq> []" and "getUser caller = Some token"
    and "au_admin token" and "ap_uid d \<noteq> []" and "ap_delta d = Some delta" and "delta \<noteq> NaN"
  shows "\<exists>s'. adminAdjustBalance p e getUser now txId auth d s = (Inr ''SUCCESS'', s')
              \<and> wallets s' = (wallets s)
                    (ap_uid d \<mapsto> walletWrite (wallets s (ap_uid d)) (ap_uid d)
                                   (js_add (walletBalance s (ap_uid d)) delta)
                                   (getBaseCurrency p e) now)"
  using assms
  by (simp add: adminAdjustBalance_def uidOrThrow_def isNaN_def runTransaction_def
      adminAdjustBalance_tx_def walletBalance_def Let_def)

text \<open>
  C5, evaluated on two stores in which A, with 100, holds the only wallet. An
  administrator's adjustment of -150 takes the balance of A from 100 to -50: the handler
  adds the delta without a check. The settlement of a trip of A with the driver B at a
  fare of 0.75 and the rate 0.95 credits the payout of -0.25 to B, who has no wallet yet:
  the balance of B is -0.25.
\<close>

theorem balances_below_zero:
  "dom (wallets example_store) = {''A''} \<and> walletBalance example_store ''A'' = Num 100
   \<and> fst (adminAdjustBalance example_platform example_env example_directory 2 ''T1''
            (Some ''ROOT'') \<lparr> ap_uid = ''A'', ap_delta = Some (Num (- 150)), ap_reason = None \<rparr>
            example_store) = Inr ''SUCCESS''
   \<and> walletBalance
         (snd (adminAdjustBalance example_platform example_env example_directory 2 ''T1''
                 (Some ''ROOT'') \<lparr> ap_uid = ''A'', ap_delta = Some (Num (- 150)), ap_reason = None \<rparr>
                 example_store)) ''A'' = Num (- 50)
   \<and> dom (wallets short_trip_store) = {''A''} \<and> walletBalance short_trip_store ''A'' = Num 100
   \<and> fst (payDriverOnComplete example_platform
            (example_env\<lparr> APP_PLATFORM_FEE_RATE := Some ''0.95'' \<rparr>) 2 ''D1'' ''C1'' (Some ''A'')
            ''R1'' short_trip_store) = Inr True
   \<and> walletBalance
         (snd (payDriverOnComplete example_platform
                 (example_env\<lparr> APP_PLATFORM_FEE_RATE := Some ''0.95'' \<rparr>) 2 ''D1'' ''C1''
                 (Some ''A'') ''R1'' short_trip_store)) ''B'' = Num (- (1 / 4))"
proof -
  let ?d = "\<lparr> ap_uid = ''A'', ap_delta = Some (Num (- 150)), ap_reason = None \<rparr>"
  let ?e = "example_env\<lparr> APP_PLATFORM_FEE_RATE := Some ''0.95'' \<rparr>"
  have doms: "dom (wallets example_store) = {''A''}" "dom (wallets short_trip_store) = {''A''}"
    by (simp_all add: example_store_def short_trip_store_def empty_store_def)
  have g: "''ROOT'' \<noteq> []" "example_directory ''ROOT'' = Some \<lparr> au_admin = True \<rparr>"
    "au_admin \<lparr> au_admin = True \<rparr>" "ap_uid ?d \<noteq> []" "ap_delta ?d = Some (Num (- 150))"
    "Num (- 150) \<noteq> NaN"
    by (simp_all add: example_directory_def)
  from adminAdjustBalance_adjusts [where s = example_store and p = example_platform
      and e = example_env and now = 2 and txId = "''T1''" and getUser = example_directory
      and d = ?d and caller = "''ROOT''" and token = "\<lparr> au_admin = True \<rparr>"
      and delta = "Num (- 150)", OF refl g]
  obtain s1 where run1: "adminAdjustBalance example_platform example_env example_directory 2 ''T1''
                           (Some ''ROOT'') ?d example_store = (Inr ''SUCCESS'', s1)"
    and w1: "wallets s1 = (wallets example_store)
               (ap_uid ?d \<mapsto> walletWrite (wallets example_store (ap_uid ?d)) (ap_uid ?d)
                                (js_add (walletBalance example_store (ap_uid ?d)) (Num (- 150)))
                                (getBaseCurrency example_platform example_env) 2)"
    by blast
  have b1: "walletBalance s1 ''A'' = Num (- 50)"
    by (simp add: walletBalance_def [of s1] w1 example_store_facts snapBalance_walletWrite)
  have h: "''A'' \<noteq> []" "''R1'' \<noteq> []"
    "r_payment_status (trip ''A'' ''B'' (3 / 4)) \<noteq> Some ''authorized''"
    "r_status (trip ''A'' ''B'' (3 / 4)) = ''on_trip''"
    "r_userId (trip ''A'' ''B'' (3 / 4)) = ''A''"
    "r_driver_id (trip ''A'' ''B'' (3 / 4)) = Some ''B''" "''B'' \<noteq> []"
    "r_estimatedFareZAR (trip ''A'' ''B'' (3 / 4)) = Some (Num (3 / 4))" "(0::rat) < 3 / 4"
    "\<not> js_lt (walletBalance short_trip_store ''A'') (Num (3 / 4))"
    by (simp_all add: trip_facts)
  from payDriverOnComplete_settles [where s = short_trip_store and rideId = "''R1''"
      and riderUid = "''A''" and driverId = "''B''" and a = "3 / 4" and p = example_platform
      and e = ?e and now = 2 and debitId = "''D1''" and creditId = "''C1''",
      OF refl h(1,2) trip_facts(2) h(3,4,5,6,7,8,9,10)]
  obtain s2 where run2: "payDriverOnComplete example_platform ?e 2 ''D1'' ''C1''
                           (Some ''A'') ''R1'' short_trip_store = (Inr True, s2)"
    and w2: "wallets s2 = (wallets short_trip_store)
            (''A'' \<mapsto> walletWrite (wallets short_trip_store ''A'') ''A''
                           (js_sub (walletBalance short_trip_store ''A'') (Num (3 / 4)))
                           (getBaseCurrency example_platform ?e) 2,
             ''B'' \<mapsto> walletWrite (wallets short_trip_store ''B'') ''B''
                           (js_add (walletBalance short_trip_store ''B'')
                              (payout (Num (3 / 4)) (feeRate example_platform ?e)))
                           (getBaseCurrency example_platform ?e) 2)"
    by blast
  have q: "fl (- (1 / 4)) = Num (- (1 / 4))"
    using fl_exact [of "- 1" "- 2"] by simp
  have b2: "walletBalance s2 ''B'' = Num (- (1 / 4))"
    by (simp add: walletBalance_def [of s2] w2 trip_facts example_feeRate short_trip_split q
        snapBalance_walletWrite)
  show ?thesis
    unfolding run1 run2 using doms b1 b2 by (simp add: example_store_facts trip_facts)
qed

subsection \<open>The PayFast signature\<close>

text \<open>What the loop keeps of one entry: the cleaned value, or nothing.\<close>

lemma pf_keep_cases:
  "pf_keep p incl exclude kv filtered = filtered
   \<or> (\<exists>c. pf_keep p incl exclude kv filtered = js_set (fst kv) c filtered)"
  by (auto simp: pf_keep_def Let_def split: option.splits)

lemma pf_keep_distinct:
  "distinct (map fst filtered) \<Longrightarrow> distinct (map fst (pf_keep p incl exclude kv filtered))"
  using pf_keep_cases [of p incl exclude kv filtered]
  by (auto simp: js_set_def distinct_update)

lemma fold_pf_keep_distinct:
  "distinct (map fst acc) \<Longrightarrow> distinct (map fst (fold (pf_keep p incl exclude) d acc))"
  by (induction d arbitrary: acc) (simp_all add: pf_keep_distinct)

lemma pf_keep_other:
  "k \<noteq> fst kv \<Longrightarrow> map_of (pf_keep p incl exclude kv filtered) k = map_of filtered k"
  using pf_keep_cases [of p incl exclude kv filtered]
  by (auto simp: js_set_def update_conv')

lemma fold_pf_keep_absent:
  "k \<notin> fst ` set d \<Longrightarrow> map_of (fold (pf_keep p incl exclude) d acc) k = map_of acc k"
  by (induction d arbitrary: acc) (auto simp: pf_keep_other)

lemma fold_pf_keep_present:
  assumes "distinct (map fst d)" and "(k, v) \<in> set d"
  shows "map_of (fold (pf_keep p incl exclude) d acc) k
           = map_of (pf_keep p incl exclude (k, v) acc) k"
  using assms
proof (induction d arbitrary: acc)
  case Nil
  then show ?case by simp
next
  case (Cons kv d)
  show ?case
  proof (cases "kv = (k, v)")
    case True
    then have "k \<notin> fst ` set d" using Cons.prems(1) by auto
    then show ?thesis using True by (simp add: fold_pf_keep_absent)
  next
    case False
    then have in_d: "(k, v) \<in> set d" using Cons.prems(2) by simp
    then have "fst kv \<noteq> k" using Cons.prems(1) by (auto simp: image_iff)
    moreover have "distinct (map fst d)" using Cons.prems(1) by simp
    ultimately show ?thesis
      using Cons.IH [OF _ in_d, of "pf_keep p incl exclude kv acc"]
      by (simp add: pf_keep_def [of p incl exclude "(k, v)"] Let_def js_set_def update_conv'
          pf_keep_other split: option.splits)
  qed
qed

lemma fold_pf_keep_map_of:
  assumes "distinct (map fst d1)" and "distinct (map fst d2)" and "set d1 = set d2"
  shows "map_of (fold (pf_keep p incl exclude) d1 []) k
           = map_of (fold (pf_keep p incl exclude) d2 []) k"
proof (cases "k \<in> fst ` set d1")
  case True
  then obtain v where "(k, v) \<in> set d1" by auto
  then show ?thesis
    using assms fold_pf_keep_present [of d1 k v] fold_pf_keep_present [of d2 k v] by simp
next
  case False
  then show ?thesis using assms(3) by (simp add: fold_pf_keep_absent)
qed

lemma pf_filtered_same:
  assumes "distinct (map fst d1)" and "distinct (map fst d2)" and "set d1 = set d2"
  shows "js_get (pf_filtered p d1 opts) = js_get (pf_filtered p d2 opts)"
    and "sort (map fst (pf_filtered p d1 opts)) = sort (map fst (pf_filtered p d2 opts))"
proof -
  let ?f1 = "pf_filtered p d1 opts" and ?f2 = "pf_filtered p d2 opts"
  have m: "map_of ?f1 = map_of ?f2"
    unfolding pf_filtered_def using fold_pf_keep_map_of [OF assms] by blast
  then show "js_get ?f1 = js_get ?f2"
    by (simp add: js_get_def fun_eq_iff)
  have "dom (map_of ?f1) = dom (map_of ?f2)" using m by simp
  then have keys: "set (map fst ?f1) = set (map fst ?f2)"
    by (simp add: dom_map_of_conv_image_fst)
  have "distinct (map fst ?f1)" "distinct (map fst ?f2)"
    unfolding pf_filtered_def by (simp_all add: fold_pf_keep_distinct)
  then show "sort (map fst ?f1) = sort (map fst ?f2)"
    using keys by (intro sorted_distinct_set_unique) simp_all
qed

text \<open>
  C7. Two field objects that hold the same key-value pairs, their keys entered in
  different orders, have the same query string and the same signature, for every
  passphrase and all options.
\<close>

theorem generatePayFastSignature_order_independent:
  assumes "distinct (map fst d1)" and "distinct (map fst d2)" and "set d1 = set d2"
  shows "buildPayFastQueryString p d1 opts = buildPayFastQueryString p d2 opts
       \<and> generatePayFastSignature p d1 passphrase opts
           = generatePayFastSignature p d2 passphrase opts"
proof -
  note same = pf_filtered_same [OF assms, of p opts]
  have "buildPayFastQueryString p d1 opts = buildPayFastQueryString p d2 opts"
    by (simp add: buildPayFastQueryString_def Let_def same)
  then show ?thesis
    by (simp add: generatePayFastSignature_def)
qed

theorem generatePayFastSignature_order_independent_witness:
  "generatePayFastSignature example_platform
      [(''m_payment_id'', Some ''P1''), (''amount'', Some ''100.00''), (''item_name'', Some ''TOPUP'')]
      ''SECRET'' default_opts
   = generatePayFastSignature example_platform
      [(''item_name'', Some ''TOPUP''), (''m_payment_id'', Some ''P1''), (''amount'', Some ''100.00'')]
      ''SECRET'' default_opts
   \<and> generatePayFastSignature example_platform
      [(''m_payment_id'', Some ''P1''), (''amount'', Some ''100.00''), (''item_name'', Some ''TOPUP'')]
      ''SECRET'' default_opts
   = ''amount:100.00;item_name:TOPUP;m_payment_id:P1;passphrase:SECRET''"
proof -
  let ?d1 = "[(''m_payment_id'', Some ''P1''), (''amount'', Some ''100.00''),
              (''item_name'', Some ''TOPUP'')]"
  let ?d2 = "[(''item_name'', Some ''TOPUP''), (''m_payment_id'', Some ''P1''),
              (''amount'', Some ''100.00'')]"
  have h: "distinct (map fst ?d1)" "distinct (map fst ?d2)" "set ?d1 = set ?d2"
    by auto
  have v: "generatePayFastSignature example_platform ?d2 ''SECRET'' default_opts
             = ''amount:100.00;item_name:TOPUP;m_payment_id:P1;passphrase:SECRET''"
    by (simp add: generatePayFastSignature_def buildPayFastQueryString_def pf_filtered_def
        pf_keep_def default_opts_def cleanPf_def js_set_def js_get_def js_str_def encodePf_def
        example_platform_def example_digest_def Let_def)
  show ?thesis
    using generatePayFastSignature_order_independent [OF h, of example_platform default_opts
        "''SECRET''"] v
    by simp
qed

subsection \<open>The signature check of the webhook\<close>

lemma at_signature_length: "at_signature cs \<Longrightarrow> 10 \<le> length cs"
proof -
  assume "at_signature cs"
  then have "length (map ascii_lower (take 10 cs)) = length ''signature=''"
    by (simp only: at_signature_def)
  then show ?thesis by simp
qed

lemma at_signature_amp: "at_signature (cs @ CHR ''&'' # r) = at_signature cs"
proof (cases "10 \<le> length cs")
  case True
  then show ?thesis by (simp add: at_signature_def)
next
  case False
  then have short: "\<not> at_signature cs" using at_signature_length by blast
  have "\<not> at_signature (cs @ CHR ''&'' # r)"
  proof
    assume "at_signature (cs @ CHR ''&'' # r)"
    then have "set (map ascii_lower (take 10 (cs @ CHR ''&'' # r))) = set ''signature=''"
      by (simp only: at_signature_def)
    moreover have "ascii_lower (CHR ''&'') \<in> set (map ascii_lower (take 10 (cs @ CHR ''&'' # r)))"
      using False by (cases "10 - length cs") auto
    moreover have "ascii_lower (CHR ''&'') = CHR ''&''" by (simp add: ascii_lower_def)
    ultimately show False by simp
  qed
  with short show ?thesis by simp
qed

lemma skip_value_length: "length (skip_value cs) \<le> length cs - 10"
  using length_dropWhile_le [of "\<lambda>c. c \<noteq> CHR ''&''" "drop 10 cs"]
  by (simp add: skip_value_def)

lemma strip_amp_signature_append:
  assumes "strip_amp_signature cs = cs" and "CHR ''&'' \<notin> set sg"
  shows "strip_amp_signature (cs @ ''&signature='' @ sg) = cs"
  using assms(1)
proof (induction cs)
  case Nil
  have "at_signature (''signature='' @ sg)"
    by (simp add: at_signature_def ascii_lower_def)
  moreover have "skip_value (''signature='' @ sg) = []"
    using assms(2) by (auto simp: skip_value_def)
  ultimately show ?case by simp
next
  case (Cons c cs)
  have no: "\<not> (c = CHR ''&'' \<and> at_signature cs)"
  proof
    assume "c = CHR ''&'' \<and> at_signature cs"
    then have "skip_value cs = c # cs" using Cons.prems by simp
    then have "length (skip_value cs) = Suc (length cs)" by simp
    with skip_value_length [of cs] show False by simp
  qed
  then have rest: "strip_amp_signature cs = cs" using Cons.prems by auto
  have "at_signature (cs @ ''&signature='' @ sg) = at_signature cs"
    using at_signature_amp [of cs "''signature='' @ sg"] by simp
  then show ?case using no Cons.IH [OF rest] by auto
qed

lemma strip_signature_append:
  assumes "strip_signature qs = qs" and "CHR ''&'' \<notin> set sg"
  shows "strip_signature (qs @ ''&signature='' @ sg) = qs"
proof -
  have no: "\<not> at_signature qs"
  proof
    assume at: "at_signature qs"
    then have "skip_value qs = qs" using assms(1) by (simp add: strip_signature_def)
    then have "length (skip_value qs) = length qs" by simp
    with skip_value_length [of qs] at_signature_length [OF at] show False by simp
  qed
  then have "strip_amp_signature qs = qs" using assms(1) by (simp add: strip_signature_def)
  from strip_amp_signature_append [OF this assms(2)]
  have "strip_amp_signature (qs @ ''&signature='' @ sg) = qs" .
  moreover have "at_signature (qs @ ''&signature='' @ sg) = at_signature qs"
    using at_signature_amp [of qs "''signature='' @ sg"] by simp
  ultimately show ?thesis using no by (simp add: strip_signature_def)
qed

text \<open>
  C6, as the claim states it, fails. The check that the repository makes of a signature
  is the one of the webhook, which digests the raw body in the order it was received;
  \<open>generatePayFastSignature\<close> digests the fields in the order of their keys. A
  notification that carries the fields \<open>m_payment_id\<close> and \<open>amount\<close> in this order,
  with the signature \<open>generatePayFastSignature\<close> makes for them under the configured
  passphrase, is answered with 400 and Invalid signature.
\<close>

theorem payfastITN_rejects_generated_signature:
  "generatePayFastSignature example_platform
      [(''m_payment_id'', Some ''P1''), (''amount'', Some ''100.00'')] ''SECRET'' default_opts
     = ''amount:100.00;m_payment_id:P1;passphrase:SECRET''
   \<and> payfastITN example_platform (example_env\<lparr> PAYFAST_PASSPHRASE := Some ''SECRET'' \<rparr>) 2
        \<lparr> rq_method = ''POST'',
          rq_rawBody = Some (''m_payment_id=P1&amount=100.00&signature=''
                             @ ''amount:100.00;m_payment_id:P1;passphrase:SECRET''),
          rq_body = BodyNone \<rparr> example_store
     = (respond 400 ''Invalid signature'', example_store)"
proof -
  let ?e = "example_env\<lparr> PAYFAST_PASSPHRASE := Some ''SECRET'' \<rparr>"
  let ?raw = "''m_payment_id=P1&amount=100.00&signature=amount:100.00;m_payment_id:P1;passphrase:SECRET''"
  let ?req = "\<lparr> rq_method = ''POST'', rq_rawBody = Some ?raw, rq_body = BodyNone \<rparr>"
  let ?data = "[(''m_payment_id'', ''P1''), (''amount'', ''100.00''),
                (''signature'', ''amount:100.00;m_payment_id:P1;passphrase:SECRET'')]"
  have sg: "generatePayFastSignature example_platform
              [(''m_payment_id'', Some ''P1''), (''amount'', Some ''100.00'')] ''SECRET'' default_opts
            = ''amount:100.00;m_payment_id:P1;passphrase:SECRET''"
    by (simp add: generatePayFastSignature_def buildPayFastQueryString_def pf_filtered_def
        pf_keep_def default_opts_def cleanPf_def js_set_def js_get_def js_str_def encodePf_def
        example_platform_def example_digest_def Let_def)
  have dec: "itn_decode example_platform ?req = Some (?raw, ?data)"
    by (simp add: itn_decode_def itn_parse_form_def example_platform_def form_pairs_def js_set_def)
  have key: "cleanPf example_platform (PAYFAST_MERCHANT_KEY ?e) = ''KEY''"
    and pass: "cleanPf example_platform (Some (str_or (PAYFAST_PASSPHRASE ?e) [])) = ''SECRET''"
    by (simp_all add: cleanPf_def example_platform_def example_env_def str_or_def)
  have calc: "itn_calculatedSignature example_platform ''SECRET'' ?raw ?data
               = ''m_payment_id:P1;amount:100.00;passphrase:SECRET''"
    by (simp add: itn_calculatedSignature_def itn_signingString_def strip_signature_def
        at_signature_def ascii_lower_def skip_value_def strip_leading_amp_def
        strip_trailing_amp_def example_platform_def example_digest_def)
  have "itn_request example_platform ?e ?req = Respond (respond 400 ''Invalid signature'')"
    unfolding itn_request_def dec key pass
    by (simp add: calc js_get_def str_or_null_def)
  then have "payfastITN example_platform ?e 2 ?req example_store
               = (respond 400 ''Invalid signature'', example_store)"
    by (simp add: payfastITN_def)
  with sg show ?thesis by simp
qed

text \<open>
  C6, amended. The webhook accepts a signature that \<open>generatePayFastSignature\<close> made
  for a field object, a passphrase and signing options when the raw body of the
  notification is the query string \<open>buildPayFastQueryString\<close> builds of that object
  and those options, followed by \<open>&signature=\<close> and the signature; the query string
  holds no signature parameter of its own and no \<open>&\<close> at either end; the signature
  holds no \<open>&\<close>, and the form parser reads it back; and the passphrase is the
  configured one, the empty one included. The signature the handler computes is then
  the one received, and its answer is neither Missing signature nor Invalid signature.
\<close>

theorem payfastITN_accepts_generated_signature:
  assumes "qs = fst (buildPayFastQueryString p data opts)"
    and "sg = generatePayFastSignature p data passphrase opts"
    and "rq_method req = ''POST''"
    and "itn_decode p req = Some (qs @ ''&signature='' @ sg, parsed)"
    and "js_get parsed ''signature'' = Some sg" and "sg \<noteq> []" and "CHR ''&'' \<notin> set sg"
    and "strip_signature qs = qs"
    and "strip_leading_amp qs = qs" and "strip_trailing_amp qs = qs"
    and "cleanPf p (Some (str_or (PAYFAST_PASSPHRASE e) [])) = cleanPf p (Some passphrase)"
    and "cleanPf p (PAYFAST_MERCHANT_KEY e) \<noteq> []"
  shows "itn_calculatedSignature p (cleanPf p (Some (str_or (PAYFAST_PASSPHRASE e) [])))
           (qs @ ''&signature='' @ sg) parsed = sg
       \<and> itn_request p e req \<noteq> Respond (respond 400 ''Missing signature'')
       \<and> itn_request p e req \<noteq> Respond (respond 400 ''Invalid signature'')"
proof -
  define raw where "raw = qs @ ''&signature='' @ sg"
  let ?pass = "cleanPf p (Some (str_or (PAYFAST_PASSPHRASE e) []))"
  let ?pf = "cleanPf p (Some passphrase)"
  have dec: "itn_decode p req = Some (raw, parsed)"
    using assms(4) by (simp add: raw_def)
  have "raw \<noteq> []" by (simp add: raw_def)
  moreover have "strip_signature raw = qs"
    unfolding raw_def by (rule strip_signature_append [OF assms(8,7)])
  ultimately have signing: "itn_signingString p raw parsed = qs"
    by (simp add: itn_signingString_def assms(9,10))
  have "itn_calculatedSignature p ?pass raw parsed
          = md5_hex p (if ?pf \<noteq> [] then qs @ ''&passphrase='' @ ?pf else qs)"
    unfolding assms(11) by (simp add: itn_calculatedSignature_def signing Let_def)
  also have "\<dots> = sg"
    unfolding assms(1,2) generatePayFastSignature_def Let_def by simp
  finally have calc: "itn_calculatedSignature p ?pass raw parsed = sg" .
  have "itn_request p e req
          = (if js_get parsed ''payment_status'' \<noteq> Some ''COMPLETE''
             then Respond (respond 200 ''OK'')
             else
               (let paymentId = str_or (js_get parsed ''m_payment_id'') [];
                    uid = str_or (js_get parsed ''custom_str1'') [];
                    amount = (case js_get parsed ''amount_gross'' of
                                None \<Rightarrow> NaN
                              | Some v \<Rightarrow> toNumber p v)
                in if paymentId = [] \<or> uid = [] \<or> js_falsy amount \<or> isNaN amount
                   then Respond (respond 400 ''Missing required fields'')
                   else Credit \<lparr> if_paymentId = paymentId, if_uid = uid, if_amount = amount,
                                 if_pfPaymentId = js_get parsed ''pf_payment_id'',
                                 if_payment_method = js_get parsed ''payment_method'',
                                 if_payment_status = js_get parsed ''payment_status'' \<rparr>))"
    using assms(3,6,12)
    by (simp add: itn_request_def dec assms(5) calc str_or_null_def Let_def)
  then have "itn_request p e req \<noteq> Respond (respond 400 ''Missing signature'')"
    and "itn_request p e req \<noteq> Respond (respond 400 ''Invalid signature'')"
    by (simp_all add: Let_def respond_def)
  with calc show ?thesis unfolding raw_def by simp
qed

theorem payfastITN_accepts_generated_signature_witness:
  "itn_calculatedSignature example_platform ''SECRET''
      (''amount=100.00&m_payment_id=P1'' @ ''&signature=''
        @ ''amount:100.00;m_payment_id:P1;passphrase:SECRET'')
      [(''amount'', ''100.00''), (''m_payment_id'', ''P1''),
       (''signature'', ''amount:100.00;m_payment_id:P1;passphrase:SECRET'')]
     = generatePayFastSignature example_platform
         [(''m_payment_id'', Some ''P1''), (''amount'', Some ''100.00'')] ''SECRET'' default_opts
   \<and> itn_request example_platform (example_env\<lparr> PAYFAST_PASSPHRASE := Some ''SECRET'' \<rparr>)
        \<lparr> rq_method = ''POST'',
          rq_rawBody = Some (''amount=100.00&m_payment_id=P1'' @ ''&signature=''
                             @ ''amount:100.00;m_payment_id:P1;passphrase:SECRET''),
          rq_body = BodyNone \<rparr>
       \<noteq> Respond (respond 400 ''Invalid signature'')"
proof -
  let ?e = "example_env\<lparr> PAYFAST_PASSPHRASE := Some ''SECRET'' \<rparr>"
  let ?qs = "''amount=100.00&m_payment_id=P1''"
  let ?sg = "''amount:100.00;m_payment_id:P1;passphrase:SECRET''"
  let ?data = "[(''m_payment_id'', Some ''P1''), (''amount'', Some ''100.00'')]"
  let ?req = "\<lparr> rq_method = ''POST'', rq_rawBody = Some (?qs @ ''&signature='' @ ?sg),
                rq_body = BodyNone \<rparr>"
  let ?parsed = "[(''amount'', ''100.00''), (''m_payment_id'', ''P1''), (''signature'', ?sg)]"
  have qs: "?qs = fst (buildPayFastQueryString example_platform ?data default_opts)"
    by (simp add: buildPayFastQueryString_def pf_filtered_def pf_keep_def default_opts_def
        cleanPf_def js_set_def js_get_def js_str_def encodePf_def example_platform_def Let_def)
  have sg: "?sg = generatePayFastSignature example_platform ?data ''SECRET'' default_opts"
    by (simp add: generatePayFastSignature_def buildPayFastQueryString_def pf_filtered_def
        pf_keep_def default_opts_def cleanPf_def js_set_def js_get_def js_str_def encodePf_def
        example_platform_def example_digest_def Let_def)
  have dec: "itn_decode example_platform ?req = Some (?qs @ ''&signature='' @ ?sg, ?parsed)"
    by (simp add: itn_decode_def itn_parse_form_def example_platform_def form_pairs_def js_set_def)
  have h: "rq_method ?req = ''POST''" "js_get ?parsed ''signature'' = Some ?sg" "?sg \<noteq> []"
    "CHR ''&'' \<notin> set ?sg" "strip_signature ?qs = ?qs" "strip_leading_amp ?qs = ?qs"
    "strip_trailing_amp ?qs = ?qs"
    "cleanPf example_platform (Some (str_or (PAYFAST_PASSPHRASE ?e) []))
       = cleanPf example_platform (Some ''SECRET'')"
    "cleanPf example_platform (PAYFAST_MERCHANT_KEY ?e) \<noteq> []"
    by (simp_all add: js_get_def strip_signature_def at_signature_def ascii_lower_def
        strip_leading_amp_def strip_trailing_amp_def cleanPf_def example_platform_def
        example_env_def str_or_def)
  have pass: "cleanPf example_platform (Some (str_or (PAYFAST_PASSPHRASE ?e) [])) = ''SECRET''"
    by (simp add: cleanPf_def example_platform_def example_env_def str_or_def)
  from payfastITN_accepts_generated_signature [OF qs sg h(1) dec h(2-9)]
  show ?thesis unfolding pass sg [symmetric] by blast
qed

subsection \<open>payfastITN\<close>

text \<open>
  C9. A POST notification that the handler can parse, received with the merchant key
  configured, whose signature equals the one the handler computes and whose
  \<open>payment_status\<close> is not \<open>COMPLETE\<close>, is answered with 200 and the body OK, and the
  store is the one the handler found: no balance, no log entry and no pending payment
  has changed.
\<close>

theorem payfastITN_not_complete:
  assumes "rq_method req = ''POST''"
    and "itn_decode p req = Some (rawBodyString, data)"
    and "cleanPf p (PAYFAST_MERCHANT_KEY e) \<noteq> []"
    and "js_get data ''signature'' = Some receivedSignature" and "receivedSignature \<noteq> []"
    and "receivedSignature
           = itn_calculatedSignature p (cleanPf p (Some (str_or (PAYFAST_PASSPHRASE e) [])))
               rawBodyString data"
    and "js_get data ''payment_status'' \<noteq> Some ''COMPLETE''"
  shows "payfastITN p e now req s = (respond 200 ''OK'', s)"
proof -
  have "itn_request p e req = Respond (respond 200 ''OK'')"
    using assms(1,3,5,7) assms(6) [symmetric]
    by (simp add: itn_request_def assms(2,4) Let_def str_or_null_def)
  then show ?thesis by (simp add: payfastITN_def)
qed

theorem payfastITN_not_complete_witness:
  "payfastITN example_platform example_env 1
      \<lparr> rq_method = ''POST'',
        rq_rawBody = Some ''payment_status=FAILED&signature=payment_status:FAILED'',
        rq_body = BodyNone \<rparr> example_store
     = (respond 200 ''OK'', example_store)"
proof -
  let ?req = "\<lparr> rq_method = ''POST'',
        rq_rawBody = Some ''payment_status=FAILED&signature=payment_status:FAILED'',
        rq_body = BodyNone \<rparr>"
  let ?data = "[(''payment_status'', ''FAILED''), (''signature'', ''payment_status:FAILED'')]"
  have dec: "itn_decode example_platform ?req
               = Some (''payment_status=FAILED&signature=payment_status:FAILED'', ?data)"
    by (simp add: itn_decode_def itn_parse_form_def example_platform_def form_pairs_def js_set_def)
  have key: "cleanPf example_platform (PAYFAST_MERCHANT_KEY example_env) \<noteq> []"
    and pass: "cleanPf example_platform (Some (str_or (PAYFAST_PASSPHRASE example_env) [])) = []"
    by (simp_all add: cleanPf_def example_platform_def example_env_def str_or_def)
  have sgn: "''payment_status:FAILED''
               = itn_calculatedSignature example_platform
                   (cleanPf example_platform (Some (str_or (PAYFAST_PASSPHRASE example_env) [])))
                   ''payment_status=FAILED&signature=payment_status:FAILED'' ?data"
    unfolding pass
    by (simp add: itn_calculatedSignature_def itn_signingString_def strip_signature_def
        at_signature_def ascii_lower_def skip_value_def strip_leading_amp_def
        strip_trailing_amp_def example_platform_def example_digest_def)
  show ?thesis
    by (rule payfastITN_not_complete [OF _ dec key _ _ sgn]) (simp_all add: js_get_def)
qed

subsection \<open>The credit of a top-up\<close>

text \<open>The store a credit leaves when the pending payment is there at commit time.\<close>

lemma itn_continue_credits:
  assumes "pp_status snap \<noteq> ''COMPLETED''" and "pending_payments s (if_paymentId f) = Some pend"
  shows "\<exists>s'. itn_continue base now f (Some snap) s = (respond 200 ''OK'', s')
              \<and> wallets s' = (wallets s)
                    (if_uid f \<mapsto> walletWrite (wallets s (if_uid f)) (if_uid f)
                                  (js_add (walletBalance s (if_uid f)) (if_amount f)) base now)
              \<and> dom (transactions s') = insert (if_uid f, if_paymentId f) (dom (transactions s))
              \<and> (\<forall>k. k \<noteq> (if_uid f, if_paymentId f) \<longrightarrow> transactions s' k = transactions s k)
              \<and> (\<exists>entry. transactions s' (if_uid f, if_paymentId f) = Some entry
                            \<and> tx_type entry = ''TOP_UP'' \<and> tx_amount entry = if_amount f)
              \<and> pending_payments s' = (pending_payments s)
                    (if_paymentId f \<mapsto>
                       pend\<lparr> pp_status := ''COMPLETED'', pp_completedAt := Some now,
                             pp_pfPaymentId := str_or_null (if_pfPaymentId f),
                             pp_paymentMethod := Some (str_or (if_payment_method f) ''UNKNOWN'') \<rparr>)"
  using assms
  by (simp add: itn_continue_def runTransaction_def payfastITN_tx_def walletBalance_def Let_def
      txEntry_def)

lemma itn_continue_completed:
  assumes "pp_status snap = ''COMPLETED''"
  shows "itn_continue base now f (Some snap) s = (respond 200 ''OK'', s)"
  using assms by (simp add: itn_continue_def)

text \<open>
  A pending payment that is there when the handler reads it and gone when the
  transaction commits: the update fails, and with it the write of the balance and the
  log entry queued before it.
\<close>

lemma itn_continue_nothing:
  assumes "pending_payments s (if_paymentId f) = None"
  shows "itn_continue base now f pendingSnap s = (respond 200 ''OK'', s)"
  using assms
  by (simp add: itn_continue_def runTransaction_def payfastITN_tx_def Let_def
      split: option.splits)

text \<open>
  Deliveries one after the other: a notification that is delivered again, after the
  handler has answered the first delivery, changes nothing.
\<close>

lemma payfastITN_again:
  "snd (payfastITN p e now' req (snd (payfastITN p e now req s))) = snd (payfastITN p e now req s)"
proof (cases "itn_request p e req")
  case (Respond r)
  then show ?thesis by (simp add: payfastITN_def)
next
  case (Credit f)
  show ?thesis
  proof (cases "pending_payments s (if_paymentId f)")
    case None
    then show ?thesis using Credit by (simp add: payfastITN_def itn_continue_def)
  next
    case (Some pend)
    show ?thesis
    proof (cases "pp_status pend = ''COMPLETED''")
      case True
      then show ?thesis using Credit Some by (simp add: payfastITN_def itn_continue_def)
    next
      case False
      from itn_continue_credits [OF False Some, of "getBaseCurrency p e" now]
      obtain s' where first: "itn_continue (getBaseCurrency p e) now f (Some pend) s
                                = (respond 200 ''OK'', s')"
        and pend': "pending_payments s' = (pending_payments s)
                    (if_paymentId f \<mapsto>
                       pend\<lparr> pp_status := ''COMPLETED'', pp_completedAt := Some now,
                             pp_pfPaymentId := str_or_null (if_pfPaymentId f),
                             pp_paymentMethod := Some (str_or (if_payment_method f) ''UNKNOWN'') \<rparr>)"
        by blast
      have one: "payfastITN p e now req s = (respond 200 ''OK'', s')"
        using Credit Some first by (simp add: payfastITN_def)
      show ?thesis
        unfolding one by (simp add: payfastITN_def Credit pend' itn_continue_def)
    qed
  qed
qed

lemma payfastITN_redelivered:
  "fold (\<lambda>n st. snd (payfastITN p e n req st)) ns (snd (payfastITN p e now req s))
     = snd (payfastITN p e now req s)"
  by (induction ns) (simp_all add: payfastITN_again)

text \<open>A verification call after the credit answers SUCCESS and changes nothing.\<close>

lemma verifyPayFastPayment_after_credit:
  assumes "pending_payments s paymentId = Some pend" and "pp_status pend = ''COMPLETED''"
  shows "snd (verifyPayFastPayment p e fetch now auth paymentId s) = s"
  using assms
  by (auto simp: verifyPayFastPayment_def verify_continue_def split: sum.splits)

lemma example_pending:
  "pending_payments example_store ''P1'' = Some (pending_of ''A'' 100)"
  "pp_status (pending_of ''A'' 100) \<noteq> ''COMPLETED''"
  "pp_uid (pending_of ''A'' 100) = ''A''"
  "if_paymentId example_fields = ''P1''" "if_uid example_fields = ''A''"
  "if_amount example_fields = Num 100"
  by (simp_all add: example_store_def empty_store_def pending_of_def example_fields_def)

lemma example_notification_decoded:
  "itn_decode example_platform example_notification =
     Some (''amount_gross=100.00&custom_str1=A&m_payment_id=P1&payment_status=COMPLETE'',
           [(''m_payment_id'', ''P1''), (''custom_str1'', ''A''), (''amount_gross'', ''100.00''),
            (''payment_status'', ''COMPLETE''),
            (''signature'',
               ''amount_gross:100.00;custom_str1:A;m_payment_id:P1;payment_status:COMPLETE'')])"
  "itn_decode example_platform other_uid_notification =
     Some (''amount_gross=100.00&custom_str1=B&m_payment_id=P1&payment_status=COMPLETE'',
           [(''m_payment_id'', ''P1''), (''custom_str1'', ''B''), (''amount_gross'', ''100.00''),
            (''payment_status'', ''COMPLETE''),
            (''signature'',
               ''amount_gross:100.00;custom_str1:B;m_payment_id:P1;payment_status:COMPLETE'')])"
  by (simp_all add: itn_decode_def example_platform_def example_notification_def
      other_uid_notification_def js_set_def byte_compare_def)

lemma example_notification_signature:
  "itn_calculatedSignature example_platform []
      ''amount_gross=100.00&custom_str1=A&m_payment_id=P1&payment_status=COMPLETE'' d
     = ''amount_gross:100.00;custom_str1:A;m_payment_id:P1;payment_status:COMPLETE''"
  "itn_calculatedSignature example_platform []
      ''amount_gross=100.00&custom_str1=B&m_payment_id=P1&payment_status=COMPLETE'' d
     = ''amount_gross:100.00;custom_str1:B;m_payment_id:P1;payment_status:COMPLETE''"
  by (simp_all add: itn_calculatedSignature_def itn_signingString_def strip_signature_def
      at_signature_def ascii_lower_def skip_value_def strip_leading_amp_def
      strip_trailing_amp_def example_platform_def example_digest_def)

lemma example_amount: "toNumber example_platform ''100.00'' = Num 100"
  by (simp add: example_platform_def example_numbers)

lemma example_notification_fields:
  "itn_request example_platform example_env example_notification = Credit example_fields"
  "itn_request example_platform example_env other_uid_notification
     = Credit (example_fields\<lparr> if_uid := ''B'' \<rparr>)"
proof -
  have key: "cleanPf example_platform (PAYFAST_MERCHANT_KEY example_env) = ''KEY''"
    and pass: "cleanPf example_platform (Some (str_or (PAYFAST_PASSPHRASE example_env) [])) = []"
    by (simp_all add: cleanPf_def example_platform_def example_env_def str_or_def)
  show "itn_request example_platform example_env example_notification = Credit example_fields"
    unfolding itn_request_def example_notification_decoded key pass
    by (simp add: example_notification_signature example_amount str_or_def
        str_or_null_def js_get_def example_notification_def example_fields_def js_falsy_def
        isNaN_def)
  show "itn_request example_platform example_env other_uid_notification
          = Credit (example_fields\<lparr> if_uid := ''B'' \<rparr>)"
    unfolding itn_request_def example_notification_decoded key pass
    by (simp add: example_notification_signature example_amount str_or_def
        str_or_null_def js_get_def other_uid_notification_def example_fields_def js_falsy_def
        isNaN_def)
qed

text \<open>
  C1, evaluated on two deliveries of the notification for P1 that overlap. Both handlers
  take the fields \<open>example_fields\<close> from the request and read the pending payment,
  still PENDING, before either transaction commits; the transactions then commit one
  after the other. The test for COMPLETED is made on the snapshot, outside the
  transaction, whose callback reads the wallet only. The balance of A goes from 100 to
  300: the amount of 100 is credited twice. The log holds one entry, the TOP_UP written
  twice under the payment id.
\<close>

theorem payfastITN_overlapping_deliveries:
  "itn_request example_platform example_env example_notification = Credit example_fields
   \<and> walletBalance example_store ''A'' = Num 100
   \<and> walletBalance
        (snd (itn_continue ''ZAR'' 3 example_fields (pending_payments example_store ''P1'')
               (snd (itn_continue ''ZAR'' 2 example_fields (pending_payments example_store ''P1'')
                      example_store))))
        ''A'' = Num 300
   \<and> dom (transactions
        (snd (itn_continue ''ZAR'' 3 example_fields (pending_payments example_store ''P1'')
               (snd (itn_continue ''ZAR'' 2 example_fields (pending_payments example_store ''P1'')
                      example_store)))))
       = {(''A'', ''P1'')}"
proof -
  let ?pend = "pending_of ''A'' 100"
  note p = example_pending(2)
  from itn_continue_credits [OF p, of example_store example_fields ?pend "''ZAR''" 2]
  obtain s1 where one: "itn_continue ''ZAR'' 2 example_fields (Some ?pend) example_store
                          = (respond 200 ''OK'', s1)"
    and w1: "wallets s1 = (wallets example_store)
               (''A'' \<mapsto> walletWrite (wallets example_store ''A'') ''A''
                              (js_add (walletBalance example_store ''A'') (Num 100)) ''ZAR'' 2)"
    and t1: "dom (transactions s1) = insert (''A'', ''P1'') (dom (transactions example_store))"
    and p1: "pending_payments s1 = (pending_payments example_store)
               (''P1'' \<mapsto> ?pend\<lparr> pp_status := ''COMPLETED'', pp_completedAt := Some 2,
                                   pp_pfPaymentId := str_or_null (if_pfPaymentId example_fields),
                                   pp_paymentMethod :=
                                     Some (str_or (if_payment_method example_fields) ''UNKNOWN'') \<rparr>)"
    unfolding example_pending(4,5,6) using example_pending(1) by blast
  have b1: "walletBalance s1 ''A'' = Num 200"
    by (simp add: walletBalance_def [of s1] w1 example_store_facts snapBalance_walletWrite)
  have there: "pending_payments s1 (if_paymentId example_fields)
                 = Some (?pend\<lparr> pp_status := ''COMPLETED'', pp_completedAt := Some 2,
                                 pp_pfPaymentId := str_or_null (if_pfPaymentId example_fields),
                                 pp_paymentMethod :=
                                   Some (str_or (if_payment_method example_fields) ''UNKNOWN'') \<rparr>)"
    by (simp add: p1 example_pending(4))
  from itn_continue_credits [OF p there, of "''ZAR''" 3]
  obtain s2 where two: "itn_continue ''ZAR'' 3 example_fields (Some ?pend) s1
                          = (respond 200 ''OK'', s2)"
    and w2: "wallets s2 = (wallets s1)
               (''A'' \<mapsto> walletWrite (wallets s1 ''A'') ''A''
                              (js_add (walletBalance s1 ''A'') (Num 100)) ''ZAR'' 3)"
    and t2: "dom (transactions s2) = insert (''A'', ''P1'') (dom (transactions s1))"
    unfolding example_pending(4,5,6) by blast
  have b2: "walletBalance s2 ''A'' = Num 300"
    by (simp add: walletBalance_def [of s2] w2 b1 snapBalance_walletWrite)
  have log: "dom (transactions s2) = {(''A'', ''P1'')}"
    by (simp add: t2 t1 example_store_facts)
  show ?thesis
    unfolding example_pending(1) one snd_conv two
    using example_notification_fields(1) example_store_facts(1) b2 log by blast
qed

lemma example_gateway_answers:
  "example_gateway (''https://sandbox.payfast.co.za'' @ ''/eng/query/validate?'' @ q) = Some ''VALID''"
  "example_gateway (''https://sandbox.payfast.co.za'' @ ''/eng/query/get?'' @ q)
     = Some ''payment_status=COMPLETE&amount_gross=100.00&payment_method=cc''"
  by (simp_all add: example_gateway_def)

lemma example_details:
  "parse_details example_platform ''payment_status=COMPLETE&amount_gross=100.00&payment_method=cc''
     = Some [(''payment_status'', ''COMPLETE''), (''amount_gross'', ''100.00''),
             (''payment_method'', ''cc'')]"
  by (simp add: parse_details_def example_platform_def js_set_def)

lemma example_base_url: "getPayFastBaseUrl example_platform example_env = ''https://sandbox.payfast.co.za''"
  by (simp add: getPayFastBaseUrl_def example_platform_def example_env_def str_or_def)

text \<open>
  The verification handler on the example store: the gateway confirms P1 and the
  transaction credits the caller.
\<close>

lemma example_verification:
  assumes "caller \<noteq> []"
  shows "\<exists>s'. verifyPayFastPayment example_platform example_env example_gateway 2 (Some caller)
                ''P1'' example_store
              = (Inr \<lparr> vr_status = ''SUCCESS'', vr_credited = Some (Num 100),
                        vr_currency = Some ''ZAR'', vr_paymentMethod = Some ''cc'',
                        vr_message = None \<rparr>, s')
            \<and> wallets s' = (wallets example_store)
                  (caller \<mapsto> walletWrite (wallets example_store caller) caller
                                (js_add (walletBalance example_store caller) (Num 100)) ''ZAR'' 2)
            \<and> (\<exists>pend. pending_payments s' ''P1'' = Some pend \<and> pp_status pend = ''COMPLETED''
                         \<and> pp_uid pend = ''A'')"
proof -
  let ?details = "[(''payment_status'', ''COMPLETE''), (''amount_gross'', ''100.00''),
                   (''payment_method'', ''cc'')]"
  have creds: "cleanPf example_platform (PAYFAST_MERCHANT_ID example_env) \<noteq> []"
    "cleanPf example_platform (PAYFAST_MERCHANT_KEY example_env) \<noteq> []"
    by (simp_all add: cleanPf_def example_platform_def example_env_def)
  have amount: "details_amount example_platform ?details = Num 100"
    by (simp add: details_amount_def js_get_def str_or_null_def example_amount)
  let ?s' = "example_store
                \<lparr> wallets := (wallets example_store)
                    (caller \<mapsto> walletWrite (wallets example_store caller) caller
                                  (js_add (walletBalance example_store caller) (Num 100)) ''ZAR'' 2),
                  transactions := (transactions example_store)
                    ((caller, ''P1'') \<mapsto>
                       (txEntry ''TOP_UP'' (Num 100) ''ZAR'' 2)
                         \<lparr> tx_provider := Some ''PAYFAST'', tx_paymentMethod := Some ''cc'',
                           tx_payfastData := Some
                             \<lparr> pfd_pf_payment_id = None, pfd_payment_status = Some ''COMPLETE'',
                               pfd_payment_method = Some ''cc'' \<rparr> \<rparr>),
                  pending_payments := (pending_payments example_store)
                    (''P1'' \<mapsto> (pending_of ''A'' 100)
                                  \<lparr> pp_status := ''COMPLETED'', pp_completedAt := Some 2 \<rparr>) \<rparr>"
  have tx: "runTransaction
              (verifyPayFastPayment_tx ''ZAR'' 2 caller ''P1'' (Num 100) ?details) example_store
            = Inr ?s'"
    by (simp add: runTransaction_def verifyPayFastPayment_tx_def walletBalance_def Let_def
        example_pending js_get_def str_or_def str_or_null_def)
  have cont: "verify_continue example_platform example_env example_gateway 2 caller ''P1''
                (pending_of ''A'' 100) example_store
              = (Inr \<lparr> vr_status = ''SUCCESS'', vr_credited = Some (Num 100),
                        vr_currency = Some ''ZAR'', vr_paymentMethod = Some ''cc'',
                        vr_message = None \<rparr>, ?s')"
    unfolding verify_continue_def Let_def example_base_url example_gateway_answers
    by (simp add: example_details amount example_currency example_pending js_get_def
        pending_of_def str_or_def tx [unfolded pending_of_def])
  have "verifyPayFastPayment example_platform example_env example_gateway 2 (Some caller) ''P1''
          example_store
        = verify_continue example_platform example_env example_gateway 2 caller ''P1''
            (pending_of ''A'' 100) example_store"
    using creds assms by (simp add: verifyPayFastPayment_def uidOrThrow_def example_pending)
  then show ?thesis
    unfolding cont by (simp add: pending_of_def)
qed

text \<open>
  C2, evaluated on P1, the pending payment of A. The webhook credits the wallet of the
  uid in the notification's \<open>custom_str1\<close> and the verification handler the wallet of
  its caller; neither reads the uid the pending payment stores. A notification for P1
  with \<open>custom_str1 = B\<close>, and a verification call by B for P1, each credit the amount
  of 100 to B and mark P1 as COMPLETED; the balance of A, the owner, stays 100.
\<close>

theorem credit_goes_to_request_uid:
  "(\<exists>pend. pending_payments example_store ''P1'' = Some pend \<and> pp_uid pend = ''A'')
   \<and> walletBalance example_store ''A'' = Num 100 \<and> walletBalance example_store ''B'' = Num 0
   \<and> itn_request example_platform example_env other_uid_notification
       = Credit (example_fields\<lparr> if_uid := ''B'' \<rparr>)
   \<and> (\<exists>s' pend. payfastITN example_platform example_env 2 other_uid_notification example_store
                    = (respond 200 ''OK'', s')
          \<and> walletBalance s' ''B'' = Num 100 \<and> walletBalance s' ''A'' = Num 100
          \<and> pending_payments s' ''P1'' = Some pend \<and> pp_status pend = ''COMPLETED''
          \<and> pp_uid pend = ''A'')
   \<and> (\<exists>s' pend. fst (verifyPayFastPayment example_platform example_env example_gateway 2
                         (Some ''B'') ''P1'' example_store)
                    = Inr \<lparr> vr_status = ''SUCCESS'', vr_credited = Some (Num 100),
                            vr_currency = Some ''ZAR'', vr_paymentMethod = Some ''cc'',
                            vr_message = None \<rparr>
          \<and> snd (verifyPayFastPayment example_platform example_env example_gateway 2
                    (Some ''B'') ''P1'' example_store) = s'
          \<and> walletBalance s' ''B'' = Num 100 \<and> walletBalance s' ''A'' = Num 100
          \<and> pending_payments s' ''P1'' = Some pend \<and> pp_status pend = ''COMPLETED''
          \<and> pp_uid pend = ''A'')"
proof -
  let ?f = "example_fields\<lparr> if_uid := ''B'' \<rparr>"
  let ?pend = "pending_of ''A'' 100"
  have f: "if_paymentId ?f = ''P1''" "if_uid ?f = ''B''" "if_amount ?f = Num 100"
    by (simp_all add: example_fields_def)
  have owner: "\<exists>pend. pending_payments example_store ''P1'' = Some pend \<and> pp_uid pend = ''A''"
    by (simp add: example_pending)
  from itn_continue_credits [OF example_pending(2), of example_store ?f ?pend "''ZAR''" 2]
  obtain s1 where one: "itn_continue ''ZAR'' 2 ?f (Some ?pend) example_store
                          = (respond 200 ''OK'', s1)"
    and w1: "wallets s1 = (wallets example_store)
               (''B'' \<mapsto> walletWrite (wallets example_store ''B'') ''B''
                              (js_add (walletBalance example_store ''B'') (Num 100)) ''ZAR'' 2)"
    and p1: "pending_payments s1 = (pending_payments example_store)
               (''P1'' \<mapsto> ?pend\<lparr> pp_status := ''COMPLETED'', pp_completedAt := Some 2,
                                   pp_pfPaymentId := str_or_null (if_pfPaymentId ?f),
                                   pp_paymentMethod :=
                                     Some (str_or (if_payment_method ?f) ''UNKNOWN'') \<rparr>)"
    unfolding f using example_pending(1) by blast
  have run1: "payfastITN example_platform example_env 2 other_uid_notification example_store
                = (respond 200 ''OK'', s1)"
    by (simp add: payfastITN_def example_notification_fields(2) example_currency f
        example_pending(1) one)
  have b1: "walletBalance s1 ''B'' = Num 100" "walletBalance s1 ''A'' = Num 100"
    using example_store_facts(1)
    by (simp_all add: walletBalance_def [of s1] w1 example_store_facts(2) snapBalance_walletWrite)
      (simp add: walletBalance_def)
  have q1: "\<exists>pend. pending_payments s1 ''P1'' = Some pend \<and> pp_status pend = ''COMPLETED''
                    \<and> pp_uid pend = ''A''"
    by (simp add: p1 pending_of_def)
  have webhook: "\<exists>s' pend. payfastITN example_platform example_env 2 other_uid_notification
                               example_store = (respond 200 ''OK'', s')
          \<and> walletBalance s' ''B'' = Num 100 \<and> walletBalance s' ''A'' = Num 100
          \<and> pending_payments s' ''P1'' = Some pend \<and> pp_status pend = ''COMPLETED''
          \<and> pp_uid pend = ''A''"
    using run1 b1 q1 by blast
  from example_verification [of "''B''"]
  obtain s2 pend2 where run2: "verifyPayFastPayment example_platform example_env example_gateway 2
                           (Some ''B'') ''P1'' example_store
                         = (Inr \<lparr> vr_status = ''SUCCESS'', vr_credited = Some (Num 100),
                                   vr_currency = Some ''ZAR'', vr_paymentMethod = Some ''cc'',
                                   vr_message = None \<rparr>, s2)"
    and w2: "wallets s2 = (wallets example_store)
               (''B'' \<mapsto> walletWrite (wallets example_store ''B'') ''B''
                              (js_add (walletBalance example_store ''B'') (Num 100)) ''ZAR'' 2)"
    and q2: "pending_payments s2 ''P1'' = Some pend2" "pp_status pend2 = ''COMPLETED''"
      "pp_uid pend2 = ''A''"
    by auto
  have b2: "walletBalance s2 ''B'' = Num 100" "walletBalance s2 ''A'' = Num 100"
    using example_store_facts(1)
    by (simp_all add: walletBalance_def [of s2] w2 example_store_facts(2) snapBalance_walletWrite)
      (simp add: walletBalance_def)
  have verify: "\<exists>s' pend. fst (verifyPayFastPayment example_platform example_env example_gateway 2
                         (Some ''B'') ''P1'' example_store)
                    = Inr \<lparr> vr_status = ''SUCCESS'', vr_credited = Some (Num 100),
                            vr_currency = Some ''ZAR'', vr_paymentMethod = Some ''cc'',
                            vr_message = None \<rparr>
          \<and> snd (verifyPayFastPayment example_platform example_env example_gateway 2
                    (Some ''B'') ''P1'' example_store) = s'
          \<and> walletBalance s' ''B'' = Num 100 \<and> walletBalance s' ''A'' = Num 100
          \<and> pending_payments s' ''P1'' = Some pend \<and> pp_status pend = ''COMPLETED''
          \<and> pp_uid pend = ''A''"
    unfolding run2 using b2 q2 by simp
  show ?thesis
    using owner example_store_facts(1,2) example_notification_fields(2) webhook verify
    by blast
qed

end
